theory Spec2Isabelle
  imports Main "HOL-Library.Word" "HOL-Library.Sublist"
begin

section \<open>Go values used by the Scheduler Job Collection resource\<close>

text \<open>
  The resource file reads its configuration through \<^verbatim>\<open>d.Get(key)\<close>, which returns
  an \<^verbatim>\<open>interface{}\<close>, and narrows the dynamic value with type assertions. The dynamic
  values that occur are modelled by one datatype. Go's \<^verbatim>\<open>int\<close> is taken at its width on
  the 64-bit platforms the provider is built for; \<^verbatim>\<open>int32\<close> is a 32-bit word. Both are
  read as two's complement numbers with \<open>sint\<close>.
\<close>

type_synonym go_int = "64 word"
type_synonym go_int32 = "32 word"

datatype iface =
    INil
  | IInt go_int
  | IInt32 go_int32
  | IString string
  | IList "iface list"
  | IMap "string \<Rightarrow> iface option"

text \<open>A run-time panic of the Go program: a failed unchecked type assertion or a nil dereference.\<close>

datatype go_panic = TypeAssertionPanic | NilDereferencePanic

text \<open>The checked form \<^verbatim>\<open>v, ok := x.(T)\<close>: \<open>None\<close> is \<^verbatim>\<open>ok == false\<close>.\<close>

fun okInt :: "iface \<Rightarrow> go_int option" where
  "okInt (IInt v) = Some v"
| "okInt _ = None"

fun okString :: "iface \<Rightarrow> string option" where
  "okString (IString s) = Some s"
| "okString _ = None"

fun okList :: "iface \<Rightarrow> iface list option" where
  "okList (IList xs) = Some xs"
| "okList _ = None"

text \<open>The unchecked form \<^verbatim>\<open>x.(T)\<close> panics when the dynamic type is not \<^verbatim>\<open>T\<close>.\<close>

fun mustString :: "iface \<Rightarrow> go_panic + string" where
  "mustString (IString s) = Inr s"
| "mustString _ = Inl TypeAssertionPanic"

fun mustMap :: "iface \<Rightarrow> go_panic + (string \<Rightarrow> iface option)" where
  "mustMap (IMap m) = Inr m"
| "mustMap _ = Inl TypeAssertionPanic"

text \<open>Indexing a Go map of \<^verbatim>\<open>interface{}\<close>: a missing key gives the nil interface.\<close>

definition mapIndex :: "(string \<Rightarrow> iface option) \<Rightarrow> string \<Rightarrow> iface" where
  "mapIndex m k = (case m k of None \<Rightarrow> INil | Some v \<Rightarrow> v)"

text \<open>The conversion \<^verbatim>\<open>int32(v)\<close> of an \<^verbatim>\<open>int\<close> keeps the low 32 bits.\<close>

definition toInt32 :: "go_int \<Rightarrow> go_int32" where
  "toInt32 v = ucast v"

section \<open>Terraform resource data\<close>

text \<open>
  Modelled from the spec: Terraform's \<^verbatim>\<open>schema.ResourceData\<close>, which is not among the
  sources, with the get/set semantics the spec refers to and as far as the resource uses
  it: the resource ID (\<^verbatim>\<open>d.Id()\<close>, \<^verbatim>\<open>d.SetId\<close>) and the values by key
  (\<^verbatim>\<open>d.Get\<close>, \<^verbatim>\<open>d.Set\<close>).
\<close>

record ResourceData =
  rd_Id :: string
  rd_values :: "string \<Rightarrow> iface"

definition dGet :: "ResourceData \<Rightarrow> string \<Rightarrow> iface" where
  "dGet d key = rd_values d key"

definition dSetId :: "ResourceData \<Rightarrow> string \<Rightarrow> ResourceData" where
  "dSetId d v = d\<lparr>rd_Id := v\<rparr>"

section \<open>Scheduler SDK structures\<close>

text \<open>
  Modelled from the spec: the structures of the Scheduler SDK, whose declarations are not
  among the sources. The spec lists what they mirror (an optional quota sub-block with
  job count, recurrence frequency and retry interval); the fields and their types are
  those the resource file reads and writes. A pointer field is an \<open>option\<close>.
\<close>

record JobMaxRecurrence =
  jmr_Frequency :: string
  jmr_Interval :: "go_int32 option"

record JobCollectionQuota =
  jcq_MaxJobCount :: "go_int32 option"
  jcq_MaxJobOccurrence :: "go_int32 option"
  jcq_MaxRecurrence :: "JobMaxRecurrence option"

section \<open>Expanding and flattening the quota block\<close>

text \<open>
  \<^verbatim>\<open>expandAzureArmSchedulerJobCollectionQuota\<close>: nil unless \<^verbatim>\<open>d.Get("quota")\<close> is a
  non-empty list; the first element must be a map (unchecked assertion); each known field
  is copied when its dynamic type matches.
\<close>

definition expandAzureArmSchedulerJobCollectionQuota ::
    "ResourceData \<Rightarrow> go_panic + JobCollectionQuota option" where
  "expandAzureArmSchedulerJobCollectionQuota d =
    (case okList (dGet d ''quota'') of
       None \<Rightarrow> Inr None
     | Some qb \<Rightarrow>
        (case qb of
           [] \<Rightarrow> Inr None
         | q0 # _ \<Rightarrow>
            (case mustMap q0 of
               Inl p \<Rightarrow> Inl p
             | Inr quotaBlock \<Rightarrow>
                 let quota = \<lparr> jcq_MaxJobCount = None, jcq_MaxJobOccurrence = None,
                               jcq_MaxRecurrence =
                                 Some \<lparr> jmr_Frequency = '''', jmr_Interval = None \<rparr> \<rparr>;
                     quota = (case okInt (mapIndex quotaBlock ''max_job_count'') of
                                Some v \<Rightarrow> quota\<lparr> jcq_MaxJobCount := Some (toInt32 v) \<rparr>
                              | None \<Rightarrow> quota);
                     quota = (case okString (mapIndex quotaBlock ''max_recurrence_frequency'') of
                                Some v \<Rightarrow> quota\<lparr> jcq_MaxRecurrence :=
                                   map_option (\<lambda>r. r\<lparr> jmr_Frequency := v \<rparr>)
                                     (jcq_MaxRecurrence quota) \<rparr>
                              | None \<Rightarrow> quota);
                     quota = (case okInt (mapIndex quotaBlock ''max_retry_interval'') of
                                Some v \<Rightarrow> quota\<lparr> jcq_MaxRecurrence :=
                                   map_option (\<lambda>r. r\<lparr> jmr_Interval := Some (toInt32 v) \<rparr>)
                                     (jcq_MaxRecurrence quota) \<rparr>
                              | None \<Rightarrow> quota)
                 in Inr (Some quota))))"

text \<open>
  \<^verbatim>\<open>flattenAzureArmSchedulerJobCollectionQuota\<close>: the nil slice for a nil quota,
  otherwise a one-element slice holding the block's map. \<open>None\<close> is the nil slice.
\<close>

definition flattenAzureArmSchedulerJobCollectionQuota ::
    "JobCollectionQuota option \<Rightarrow> iface list option" where
  "flattenAzureArmSchedulerJobCollectionQuota quota =
    (case quota of
       None \<Rightarrow> None
     | Some q \<Rightarrow>
         let quotaBlock = Map.empty;
             quotaBlock = (case jcq_MaxJobCount q of
                             Some v \<Rightarrow> quotaBlock(''max_job_count'' \<mapsto> IInt32 v)
                           | None \<Rightarrow> quotaBlock);
             quotaBlock = (case jcq_MaxRecurrence q of
                             Some recurrence \<Rightarrow>
                               (let qb = (case jmr_Interval recurrence of
                                            Some v \<Rightarrow> quotaBlock(''max_retry_interval'' \<mapsto> IInt32 v)
                                          | None \<Rightarrow> quotaBlock)
                                in qb(''max_recurrence_frequency'' \<mapsto>
                                        IString (jmr_Frequency recurrence)))
                           | None \<Rightarrow> quotaBlock)
         in Some [IMap quotaBlock])"

section \<open>Round trip of the known quota fields\<close>

text \<open>
  The configuration holds Go \<^verbatim>\<open>int\<close> values and the flattened block holds
  \<^verbatim>\<open>int32\<close> values, so "the same value" compares integers by the number they denote
  and strings by their text.
\<close>

fun intValue :: "iface \<Rightarrow> int option" where
  "intValue (IInt v) = Some (sint v)"
| "intValue (IInt32 v) = Some (sint v)"
| "intValue _ = None"

fun sameValue :: "iface \<Rightarrow> iface \<Rightarrow> bool" where
  "sameValue (IString s) (IString t) = (s = t)"
| "sameValue a b = (case intValue a of Some i \<Rightarrow> intValue b = Some i | None \<Rightarrow> False)"

definition sameField ::
    "(string \<Rightarrow> iface option) \<Rightarrow> (string \<Rightarrow> iface option) \<Rightarrow> string \<Rightarrow> bool" where
  "sameField m x k =
    (case m k of
       None \<Rightarrow> False
     | Some a \<Rightarrow> (case x k of None \<Rightarrow> False | Some b \<Rightarrow> sameValue a b))"

text \<open>A resource configuration whose \<^verbatim>\<open>quota\<close> list holds the single block \<open>x\<close>.\<close>

definition quotaConfig :: "(string \<Rightarrow> iface option) \<Rightarrow> ResourceData" where
  "quotaConfig x = \<lparr> rd_Id = '''', rd_values = (\<lambda>_. INil)(''quota'' := IList [IMap x]) \<rparr>"

definition flattenExpand :: "(string \<Rightarrow> iface option) \<Rightarrow> go_panic + iface list option" where
  "flattenExpand x =
    (case expandAzureArmSchedulerJobCollectionQuota (quotaConfig x) of
       Inl p \<Rightarrow> Inl p
     | Inr quota \<Rightarrow> Inr (flattenAzureArmSchedulerJobCollectionQuota quota))"

definition roundTripsKnownFields :: "(string \<Rightarrow> iface option) \<Rightarrow> bool" where
  "roundTripsKnownFields x =
    (case flattenExpand x of
       Inr (Some [IMap m]) \<Rightarrow>
         sameField m x ''max_job_count'' \<and>
         sameField m x ''max_recurrence_frequency'' \<and>
         sameField m x ''max_retry_interval''
     | _ \<Rightarrow> False)"

definition fitsInt32 :: "go_int \<Rightarrow> bool" where
  "fitsInt32 v = (- (2 ^ 31) \<le> sint v \<and> sint v < 2 ^ 31)"

section \<open>Errors, HTTP responses and the Scheduler client\<close>

text \<open>
  A Go \<^verbatim>\<open>error\<close> is represented by the text its \<^verbatim>\<open>Error()\<close> method returns, which is
  also what the verb \<^verbatim>\<open>%+v\<close> prints for it.
\<close>

datatype go_error = GoError (errorText: string)

text \<open>
  \<^verbatim>\<open>*http.Response\<close>: the status code, and the outcome of reading the body to its end
  (\<open>Inl\<close> when the read fails). A nil pointer is \<open>None\<close>.
\<close>

record HttpResponse =
  resp_StatusCode :: int
  resp_Body :: "go_error + string"

type_synonym tags = "string \<Rightarrow> string option"

text \<open>
  Modelled from the spec: the job collection of the Scheduler SDK (name, location, tags,
  SKU, state and optional quota, with the response and the ID the service gives it), the
  future of a delete and the parsed resource ID, whose declarations are not among the
  sources; the fields are those the resource file uses.
\<close>

record Sku =
  sku_Name :: string

record JobCollectionProperties =
  jcp_Sku :: "Sku option"
  jcp_State :: string
  jcp_Quota :: "JobCollectionQuota option"

record JobCollectionDefinition =
  jcd_Response :: "HttpResponse option"
  jcd_ID :: "string option"
  jcd_Type :: "string option"
  jcd_Name :: "string option"
  jcd_Location :: "string option"
  jcd_Tags :: tags
  jcd_Properties :: "JobCollectionProperties option"

text \<open>The future returned by \<^verbatim>\<open>client.Delete\<close>; \<^verbatim>\<open>future.Response()\<close> reads its response.\<close>

record Future =
  fut_Response :: "HttpResponse option"

text \<open>The result of \<^verbatim>\<open>parseAzureResourceID\<close>.\<close>

record ResourceID =
  rid_SubscriptionID :: string
  rid_ResourceGroup :: string
  rid_Provider :: string
  rid_Path :: "string \<Rightarrow> string option"

text \<open>Indexing a Go \<^verbatim>\<open>map[string]string\<close>: a missing key gives the empty string.\<close>

definition pathIndex :: "(string \<Rightarrow> string option) \<Rightarrow> string \<Rightarrow> string" where
  "pathIndex m k = (case m k of None \<Rightarrow> [] | Some v \<Rightarrow> v)"

text \<open>
  The helpers the resource file calls but does not define are parameters of the model:
  \<^item> \<open>parseAzureResourceID\<close>, \<open>azureRMNormalizeLocation\<close>, \<open>expandTags\<close> of the provider;
  \<^item> \<open>ResponseWasNotFound\<close> is \<^verbatim>\<open>utils.ResponseWasNotFound\<close> and \<open>WasNotFound\<close> is
    \<^verbatim>\<open>response.WasNotFound\<close>;
  \<^item> \<open>rdSet\<close> is \<^verbatim>\<open>d.Set(key, value)\<close> and \<open>flattenAndSetTags\<close> the provider's helper
    of that name; both act on the values of the resource data and never on its ID;
  \<^item> \<open>fmtQ\<close> and \<open>fmtQPtr\<close> are what the verb \<^verbatim>\<open>%q\<close> of package fmt prints for a
    string and for a \<^verbatim>\<open>*string\<close>.
\<close>

record externals =
  parseAzureResourceID :: "string \<Rightarrow> go_error + ResourceID"
  ResponseWasNotFound :: "HttpResponse option \<Rightarrow> bool"
  WasNotFound :: "HttpResponse option \<Rightarrow> bool"
  azureRMNormalizeLocation :: "string \<Rightarrow> string"
  expandTags :: "(string \<Rightarrow> iface option) \<Rightarrow> tags"
  rdSet :: "string \<Rightarrow> iface \<Rightarrow> (string \<Rightarrow> iface) \<Rightarrow> go_error option \<times> (string \<Rightarrow> iface)"
  flattenAndSetTags :: "tags \<Rightarrow> (string \<Rightarrow> iface) \<Rightarrow> go_error option \<times> (string \<Rightarrow> iface)"
  fmtQ :: "string \<Rightarrow> string"
  fmtQPtr :: "string option \<Rightarrow> string"

definition dSet ::
    "externals \<Rightarrow> ResourceData \<Rightarrow> string \<Rightarrow> iface \<Rightarrow> go_error option \<times> ResourceData" where
  "dSet ext d key v =
    (case rdSet ext key v (rd_values d) of (err, vals) \<Rightarrow> (err, d\<lparr>rd_values := vals\<rparr>))"

definition dSetTags ::
    "externals \<Rightarrow> ResourceData \<Rightarrow> tags \<Rightarrow> go_error option \<times> ResourceData" where
  "dSetTags ext d t =
    (case flattenAndSetTags ext t (rd_values d) of (err, vals) \<Rightarrow> (err, d\<lparr>rd_values := vals\<rparr>))"

text \<open>A \<^verbatim>\<open>*string\<close> and a slice handed to \<^verbatim>\<open>d.Set\<close> as dynamic values.\<close>

definition stringPtrValue :: "string option \<Rightarrow> iface" where
  "stringPtrValue p = (case p of None \<Rightarrow> INil | Some s \<Rightarrow> IString s)"

definition sliceValue :: "iface list option \<Rightarrow> iface" where
  "sliceValue s = (case s of None \<Rightarrow> IList [] | Some xs \<Rightarrow> IList xs)"

text \<open>
  The generated \<^verbatim>\<open>scheduler.JobCollectionsClient\<close>. Each method runs against the remote
  service, whose state \<open>'s\<close> it may change. \<open>jc_WaitForCompletion\<close> is
  \<^verbatim>\<open>future.WaitForCompletion(ctx, client.Client)\<close>; it returns the future as it is after
  the wait, so a client whose wait leaves the future alone returns its argument.
\<close>

record 's JobCollectionsClient =
  jc_CreateOrUpdate ::
    "string \<Rightarrow> string \<Rightarrow> JobCollectionDefinition \<Rightarrow> 's \<Rightarrow> (JobCollectionDefinition \<times> go_error option) \<times> 's"
  jc_Get :: "string \<Rightarrow> string \<Rightarrow> 's \<Rightarrow> (JobCollectionDefinition \<times> go_error option) \<times> 's"
  jc_Delete :: "string \<Rightarrow> string \<Rightarrow> 's \<Rightarrow> (Future \<times> go_error option) \<times> 's"
  jc_WaitForCompletion :: "Future \<Rightarrow> 's \<Rightarrow> (Future \<times> go_error option) \<times> 's"

text \<open>The calls made on the client, in order, are recorded beside the remote state.\<close>

datatype client_call =
    CreateOrUpdateCall string string
  | GetCall string string
  | DeleteCall string string
  | WaitForCompletionCall

record 's session =
  remote :: 's
  calls :: "client_call list"

definition clientCreateOrUpdate ::
    "'s JobCollectionsClient \<Rightarrow> string \<Rightarrow> string \<Rightarrow> JobCollectionDefinition \<Rightarrow> 's session \<Rightarrow>
       (JobCollectionDefinition \<times> go_error option) \<times> 's session" where
  "clientCreateOrUpdate client resourceGroup name collection \<sigma> =
    (case jc_CreateOrUpdate client resourceGroup name collection (remote \<sigma>) of
       (r, s') \<Rightarrow> (r, \<lparr> remote = s', calls = calls \<sigma> @ [CreateOrUpdateCall resourceGroup name] \<rparr>))"

definition clientGet ::
    "'s JobCollectionsClient \<Rightarrow> string \<Rightarrow> string \<Rightarrow> 's session \<Rightarrow>
       (JobCollectionDefinition \<times> go_error option) \<times> 's session" where
  "clientGet client resourceGroup name \<sigma> =
    (case jc_Get client resourceGroup name (remote \<sigma>) of
       (r, s') \<Rightarrow> (r, \<lparr> remote = s', calls = calls \<sigma> @ [GetCall resourceGroup name] \<rparr>))"

definition clientDelete ::
    "'s JobCollectionsClient \<Rightarrow> string \<Rightarrow> string \<Rightarrow> 's session \<Rightarrow>
       (Future \<times> go_error option) \<times> 's session" where
  "clientDelete client resourceGroup name \<sigma> =
    (case jc_Delete client resourceGroup name (remote \<sigma>) of
       (r, s') \<Rightarrow> (r, \<lparr> remote = s', calls = calls \<sigma> @ [DeleteCall resourceGroup name] \<rparr>))"

definition futureWaitForCompletion ::
    "'s JobCollectionsClient \<Rightarrow> Future \<Rightarrow> 's session \<Rightarrow> (Future \<times> go_error option) \<times> 's session" where
  "futureWaitForCompletion client future \<sigma> =
    (case jc_WaitForCompletion client future (remote \<sigma>) of
       (r, s') \<Rightarrow> (r, \<lparr> remote = s', calls = calls \<sigma> @ [WaitForCompletionCall] \<rparr>))"

section \<open>The resource's create/update, read, populate and delete functions\<close>

text \<open>
  A resource function either panics or returns a Go \<^verbatim>\<open>error\<close>, where \<open>Inr None\<close> is the
  nil error. It also returns the resource data and the session as it leaves them.
\<close>

type_synonym outcome = "go_panic + go_error option"

text \<open>
  The first part of \<^verbatim>\<open>resourceArmSchedulerJobCollectionCreateUpdate\<close>: reading the
  configuration and building the \<^verbatim>\<open>scheduler.JobCollectionDefinition\<close> to send. It gives
  the name, the resource group and the collection.
\<close>

definition createUpdateRequest ::
    "externals \<Rightarrow> ResourceData \<Rightarrow> go_panic + (string \<times> string \<times> JobCollectionDefinition)" where
  "createUpdateRequest ext d =
    (case mustString (dGet d ''name'') of Inl p \<Rightarrow> Inl p | Inr name \<Rightarrow>
    (case mustString (dGet d ''location'') of Inl p \<Rightarrow> Inl p | Inr location \<Rightarrow>
    (case mustString (dGet d ''resource_group_name'') of Inl p \<Rightarrow> Inl p | Inr resourceGroup \<Rightarrow>
    (case mustMap (dGet d ''tags'') of Inl p \<Rightarrow> Inl p | Inr tags \<Rightarrow>
    (case mustString (dGet d ''sku'') of Inl p \<Rightarrow> Inl p | Inr sku \<Rightarrow>
       let properties = \<lparr> jcp_Sku = Some \<lparr> sku_Name = sku \<rparr>, jcp_State = '''', jcp_Quota = None \<rparr>;
           properties = (case okString (dGet d ''state'') of
                           Some state \<Rightarrow> properties\<lparr> jcp_State := state \<rparr>
                         | None \<Rightarrow> properties)
       in (case expandAzureArmSchedulerJobCollectionQuota d of
             Inl p \<Rightarrow> Inl p
           | Inr quota \<Rightarrow>
               Inr (name, resourceGroup,
                    \<lparr> jcd_Response = None, jcd_ID = None, jcd_Type = None, jcd_Name = None,
                      jcd_Location = Some location, jcd_Tags = expandTags ext tags,
                      jcd_Properties = Some (properties\<lparr> jcp_Quota := quota \<rparr>) \<rparr>)))))))"

text \<open>The tail of \<^verbatim>\<open>resourceArmSchedulerJobCollectionPopulate\<close>: setting the tags.\<close>

definition populateTags ::
    "externals \<Rightarrow> ResourceData \<Rightarrow> JobCollectionDefinition \<Rightarrow> outcome \<times> ResourceData" where
  "populateTags ext d resp =
    (case dSetTags ext d (jcd_Tags resp) of
       (Some err, d') \<Rightarrow>
         (Inr (Some (GoError (''Error flattening '' @ [CHR 0x60] @ ''tags'' @ [CHR 0x60] @ '': ''
                              @ errorText err))), d')
     | (None, d') \<Rightarrow> (Inr None, d'))"

definition resourceArmSchedulerJobCollectionPopulate ::
    "externals \<Rightarrow> ResourceData \<Rightarrow> string \<Rightarrow> JobCollectionDefinition \<Rightarrow> outcome \<times> ResourceData" where
  "resourceArmSchedulerJobCollectionPopulate ext d resourceGroup resp =
    (let d = snd (dSet ext d ''name'' (stringPtrValue (jcd_Name resp)))
     in case jcd_Location resp of
          None \<Rightarrow> (Inl NilDereferencePanic, d)
        | Some location \<Rightarrow>
           (let d = snd (dSet ext d ''location'' (IString (azureRMNormalizeLocation ext location)));
                d = snd (dSet ext d ''resource_group_name'' (IString resourceGroup))
            in case jcd_Properties resp of
                 None \<Rightarrow> populateTags ext d resp
               | Some properties \<Rightarrow>
                  (let d = (case jcp_Sku properties of
                              Some sku \<Rightarrow> snd (dSet ext d ''sku'' (IString (sku_Name sku)))
                            | None \<Rightarrow> d);
                       d = snd (dSet ext d ''state'' (IString (jcp_State properties)))
                   in case dSet ext d ''quota''
                             (sliceValue (flattenAzureArmSchedulerJobCollectionQuota
                                            (jcp_Quota properties))) of
                        (Some err, d') \<Rightarrow>
                          (Inr (Some (GoError (''Error flattening quota for Job Collection ''
                                 @ fmtQPtr ext (jcd_Name resp) @ '' (Resource Group ''
                                 @ fmtQ ext resourceGroup @ ''): '' @ errorText err))), d')
                      | (None, d') \<Rightarrow> populateTags ext d' resp)))"

definition resourceArmSchedulerJobCollectionCreateUpdate ::
    "externals \<Rightarrow> 's JobCollectionsClient \<Rightarrow> ResourceData \<Rightarrow> 's session \<Rightarrow>
       (outcome \<times> ResourceData) \<times> 's session" where
  "resourceArmSchedulerJobCollectionCreateUpdate ext client d \<sigma> =
    (case createUpdateRequest ext d of
       Inl p \<Rightarrow> ((Inl p, d), \<sigma>)
     | Inr (name, resourceGroup, collection) \<Rightarrow>
        (case clientCreateOrUpdate client resourceGroup name collection \<sigma> of
           ((collection1, Some err), \<sigma>1) \<Rightarrow>
             ((Inr (Some (GoError (''Error creating/updating Scheduler Job Collection ''
                    @ fmtQ ext name @ '' (Resource Group '' @ fmtQ ext resourceGroup @ ''): ''
                    @ errorText err))), d), \<sigma>1)
         | ((collection1, None), \<sigma>1) \<Rightarrow>
            (case clientGet client resourceGroup name \<sigma>1 of
               ((collection2, Some err), \<sigma>2) \<Rightarrow>
                 ((Inr (Some (GoError (''Error reading Scheduler Job Collection ''
                        @ fmtQ ext name @ '' after create/update (Resource Group ''
                        @ fmtQ ext resourceGroup @ ''): '' @ errorText err))), d), \<sigma>2)
             | ((collection2, None), \<sigma>2) \<Rightarrow>
                (case jcd_ID collection2 of
                   None \<Rightarrow> ((Inl NilDereferencePanic, d), \<sigma>2)
                 | Some i \<Rightarrow>
                    (resourceArmSchedulerJobCollectionPopulate ext (dSetId d i)
                       resourceGroup collection2, \<sigma>2)))))"

definition resourceArmSchedulerJobCollectionRead ::
    "externals \<Rightarrow> 's JobCollectionsClient \<Rightarrow> ResourceData \<Rightarrow> 's session \<Rightarrow>
       (outcome \<times> ResourceData) \<times> 's session" where
  "resourceArmSchedulerJobCollectionRead ext client d \<sigma> =
    (case parseAzureResourceID ext (rd_Id d) of
       Inl err \<Rightarrow> ((Inr (Some err), d), \<sigma>)
     | Inr rid \<Rightarrow>
        (let name = pathIndex (rid_Path rid) ''jobCollections'';
             resourceGroup = rid_ResourceGroup rid
         in case clientGet client resourceGroup name \<sigma> of
              ((collection, Some err), \<sigma>1) \<Rightarrow>
                if ResponseWasNotFound ext (jcd_Response collection)
                then ((Inr None, dSetId d ''''), \<sigma>1)
                else ((Inr (Some (GoError (''Error making Read request on Scheduler Job Collection ''
                         @ fmtQ ext name @ '' (Resource Group '' @ fmtQ ext resourceGroup @ ''): ''
                         @ errorText err))), d), \<sigma>1)
            | ((collection, None), \<sigma>1) \<Rightarrow>
                (resourceArmSchedulerJobCollectionPopulate ext d resourceGroup collection, \<sigma>1)))"

text \<open>
  The pattern \<^verbatim>\<open>if err != nil { if !response.WasNotFound(future.Response()) { return ... } }\<close>
  of the delete function: the error that makes it return, if any.
\<close>

definition unlessNotFound :: "externals \<Rightarrow> Future \<Rightarrow> go_error option \<Rightarrow> go_error option" where
  "unlessNotFound ext future err =
    (case err of
       None \<Rightarrow> None
     | Some e \<Rightarrow> if WasNotFound ext (fut_Response future) then None else Some e)"

definition resourceArmSchedulerJobCollectionDelete ::
    "externals \<Rightarrow> 's JobCollectionsClient \<Rightarrow> ResourceData \<Rightarrow> 's session \<Rightarrow>
       (outcome \<times> ResourceData) \<times> 's session" where
  "resourceArmSchedulerJobCollectionDelete ext client d \<sigma> =
    (case parseAzureResourceID ext (rd_Id d) of
       Inl err \<Rightarrow> ((Inr (Some err), d), \<sigma>)
     | Inr rid \<Rightarrow>
        (let name = pathIndex (rid_Path rid) ''jobCollections'';
             resourceGroup = rid_ResourceGroup rid
         in case clientDelete client resourceGroup name \<sigma> of
              ((future, err), \<sigma>1) \<Rightarrow>
                (case unlessNotFound ext future err of
                   Some e \<Rightarrow>
                     ((Inr (Some (GoError (''Error issuing delete request for Scheduler Job Collection ''
                            @ fmtQ ext name @ '' (Resource Group '' @ fmtQ ext resourceGroup @ ''): ''
                            @ errorText e))), d), \<sigma>1)
                 | None \<Rightarrow>
                    (case futureWaitForCompletion client future \<sigma>1 of
                       ((future', err'), \<sigma>2) \<Rightarrow>
                         (case unlessNotFound ext future' err' of
                            Some e \<Rightarrow>
                              ((Inr (Some (GoError (''Error waiting for deletion of Scheduler Job Collection ''
                                     @ fmtQ ext name @ '' (Resource Group '' @ fmtQ ext resourceGroup
                                     @ ''): '' @ errorText e))), d), \<sigma>2)
                          | None \<Rightarrow> ((Inr None, d), \<sigma>2))))))"

section \<open>The verb %q on strings of ASCII bytes\<close>

text \<open>
  What \<^verbatim>\<open>%q\<close> (\<^verbatim>\<open>strconv.Quote\<close>) prints for a string: the text between double quotes,
  with the double quote and the backslash escaped by a backslash, printable ASCII kept, the
  control characters with a Go escape written so, and every other byte as \<^verbatim>\<open>\x\<close> and two
  hexadecimal digits. This is Go's result for every string of ASCII bytes; bytes from
  \<^verbatim>\<open>0x80\<close> on are printed the way Go prints bytes that are not valid UTF-8.
\<close>

definition hexDigit :: "nat \<Rightarrow> char" where
  "hexDigit n = ''0123456789abcdef'' ! (n mod 16)"

definition quoteByte :: "char \<Rightarrow> string" where
  "quoteByte c =
    (if c = CHR 0x22 \<or> c = CHR 0x5C then [CHR 0x5C, c]
     else if 0x20 \<le> (of_char c :: nat) \<and> (of_char c :: nat) < 0x7F then [c]
     else if c = CHR 0x07 then [CHR 0x5C, CHR ''a'']
     else if c = CHR 0x08 then [CHR 0x5C, CHR ''b'']
     else if c = CHR 0x0C then [CHR 0x5C, CHR ''f'']
     else if c = CHR 0x0A then [CHR 0x5C, CHR ''n'']
     else if c = CHR 0x0D then [CHR 0x5C, CHR ''r'']
     else if c = CHR 0x09 then [CHR 0x5C, CHR ''t'']
     else if c = CHR 0x0B then [CHR 0x5C, CHR ''v'']
     else [CHR 0x5C, CHR ''x'', hexDigit (of_char c div 16), hexDigit (of_char c mod 16)])"

definition goQuote :: "string \<Rightarrow> string" where
  "goQuote s = CHR 0x22 # concat (map quoteByte s) @ [CHR 0x22]"

section \<open>The MySQL CheckNameAvailabilityClient\<close>

text \<open>
  Modelled from the spec: the request and the result of the name availability check and
  the HTTP request, whose declarations (the package's models and Go's net/http) are not
  among the sources; they are the JSON request and response bodies and the request of the
  REST conventions the spec names.
\<close>

record NameAvailabilityRequest =
  nar_Name :: "string option"
  nar_Type :: "string option"

record NameAvailability =
  na_Response :: "HttpResponse option"
  na_Message :: "string option"
  na_NameAvailable :: "bool option"
  na_Name :: "string option"
  na_Type :: "string option"

definition emptyNameAvailability :: NameAvailability where
  "emptyNameAvailability =
    \<lparr> na_Response = None, na_Message = None, na_NameAvailable = None,
      na_Name = None, na_Type = None \<rparr>"

text \<open>
  An \<^verbatim>\<open>*http.Request\<close> under construction. The URL keeps the text of the base URL, the
  path appended to it and the query parameters; a nil URL is \<open>None\<close>.
\<close>

record URL =
  url_Base :: string
  url_Path :: string
  url_Query :: "(string \<times> string) list"

record HttpRequest =
  req_Method :: string
  req_URL :: "URL option"
  req_Header :: "string \<Rightarrow> string option"
  req_Body :: "string option"

definition emptyRequest :: HttpRequest where
  "emptyRequest = \<lparr> req_Method = '''', req_URL = None, req_Header = Map.empty, req_Body = None \<rparr>"

text \<open>
  The errors \<^verbatim>\<open>Execute\<close> returns: \<^verbatim>\<open>validation.NewErrorWithValidationError\<close> around a
  failed constraint, and \<^verbatim>\<open>autorest.NewErrorWithError\<close> around the error of a step, with
  the package type, the method, the response and the message.
\<close>

datatype validation_failure = ConstraintFailed (vf_Target: string) (vf_Constraint: string)

datatype autorest_error =
    ValidationError validation_failure string string
  | DetailedError go_error string string "HttpResponse option" string

text \<open>
  What the client file takes from the Go library and from the vendored packages:
  \<^item> \<open>autorestEncode\<close> is \<^verbatim>\<open>autorest.Encode(location, value)\<close>;
  \<^item> \<open>baseURLError\<close> is the error of \<^verbatim>\<open>autorest.WithBaseURL\<close> for a base URL that does
    not parse or has no scheme, \<open>urlParseError\<close> the error of parsing the URL text;
  \<^item> \<open>jsonMarshal\<close> and \<open>jsonUnmarshal\<close> are the JSON encoding of the request and the
    decoding of a body into the result (which it may fill in part before it fails);
  \<^item> \<open>statusError\<close> is the error \<^verbatim>\<open>azure.WithErrorUnlessStatusCode\<close> builds from a
    response, \<open>closeBody\<close> the result of \<^verbatim>\<open>resp.Body.Close()\<close>.
\<close>

record autorest_env =
  autorestEncode :: "string \<Rightarrow> string \<Rightarrow> string"
  baseURLError :: "string \<Rightarrow> go_error option"
  urlParseError :: "string \<Rightarrow> go_error option"
  jsonMarshal :: "NameAvailabilityRequest \<Rightarrow> go_error + string"
  jsonUnmarshal :: "string \<Rightarrow> NameAvailability \<Rightarrow> go_error option \<times> NameAvailability"
  statusError :: "HttpResponse \<Rightarrow> go_error"
  closeBody :: "HttpResponse \<Rightarrow> go_error option"

text \<open>
  The client: its base URI and subscription ID, the sender behind \<^verbatim>\<open>ExecuteSender\<close>
  (\<^verbatim>\<open>autorest.SendWithSender\<close> with the retry decorator), which acts on the network
  \<open>'w\<close> and gives either an error with an optional response or a response, and the
  optional \<^verbatim>\<open>ResponseInspector\<close> that \<^verbatim>\<open>client.ByInspecting()\<close> runs.
\<close>

record 'w CheckNameAvailabilityClient =
  cna_BaseURI :: string
  cna_SubscriptionID :: string
  cna_Sender :: "HttpRequest \<Rightarrow> 'w \<Rightarrow> ((HttpResponse option \<times> go_error) + HttpResponse) \<times> 'w"
  cna_ResponseInspector :: "(HttpResponse \<Rightarrow> go_error option) option"

record 'w wire =
  network :: 'w
  sent :: "HttpRequest list"

text \<open>\<^verbatim>\<open>strings.Replace(s, old, new, -1)\<close> for a non-empty \<open>old\<close>.\<close>

function replaceAll :: "string \<Rightarrow> string \<Rightarrow> string \<Rightarrow> string" where
  "replaceAll old new [] = []"
| "replaceAll old new (c # cs) =
    (if old \<noteq> [] \<and> prefix old (c # cs)
     then new @ replaceAll old new (drop (length old) (c # cs))
     else c # replaceAll old new cs)"
  by pat_completeness auto
termination
  by (relation "measure (\<lambda>(old, new, s). length s)") auto

text \<open>\<^verbatim>\<open>strings.TrimRight(s, "/")\<close>.\<close>

definition trimRightSlash :: "string \<Rightarrow> string" where
  "trimRightSlash s = rev (dropWhile (\<lambda>c. c = CHR ''/'') (rev s))"

text \<open>
  Modelled from the spec: the request decorators of the vendored go-autorest package
  (\<^verbatim>\<open>AsJSON\<close>, \<^verbatim>\<open>AsPost\<close>, \<^verbatim>\<open>WithBaseURL\<close>, \<^verbatim>\<open>WithPathParameters\<close>, \<^verbatim>\<open>WithJSON\<close>,
  \<^verbatim>\<open>WithQueryParameters\<close>) and \<^verbatim>\<open>CreatePreparer\<close>, which are not among the sources.
  They follow the Azure Resource Manager REST conventions the spec names (an API version
  query parameter, JSON request bodies): each decorator changes one part of the request or
  fails, and the preparer applies them in the order given, stopping at the first error.
\<close>

type_synonym prepare_decorator = "HttpRequest \<Rightarrow> go_error + HttpRequest"

definition AsJSON :: prepare_decorator where
  "AsJSON r =
    Inr (r\<lparr> req_Header := (req_Header r)(''Content-Type'' \<mapsto> ''application/json'') \<rparr>)"

definition AsPost :: prepare_decorator where
  "AsPost r = Inr (r\<lparr> req_Method := ''POST'' \<rparr>)"

definition WithBaseURL :: "autorest_env \<Rightarrow> string \<Rightarrow> prepare_decorator" where
  "WithBaseURL ae baseURL r =
    (case baseURLError ae baseURL of
       Some e \<Rightarrow> Inl e
     | None \<Rightarrow> Inr (r\<lparr> req_URL := Some \<lparr> url_Base = baseURL, url_Path = '''', url_Query = [] \<rparr> \<rparr>))"

definition WithPathParameters ::
    "autorest_env \<Rightarrow> string \<Rightarrow> (string \<times> string) list \<Rightarrow> prepare_decorator" where
  "WithPathParameters ae path pathParameters r =
    (case req_URL r of
       None \<Rightarrow> Inl (GoError ''autorest#WithPathParameters: Invoked with a nil URL'')
     | Some u \<Rightarrow>
        (let p = foldl (\<lambda>acc kv. replaceAll (''{'' @ fst kv @ ''}'') (snd kv) acc) path pathParameters;
             p = (if prefix ''/'' p then p else ''/'' @ p);
             base = trimRightSlash (url_Base u @ url_Path u)
         in case urlParseError ae (base @ p) of
              Some e \<Rightarrow> Inl e
            | None \<Rightarrow> Inr (r\<lparr> req_URL := Some (u\<lparr> url_Base := base, url_Path := p \<rparr>) \<rparr>)))"

definition WithJSON :: "autorest_env \<Rightarrow> NameAvailabilityRequest \<Rightarrow> prepare_decorator" where
  "WithJSON ae v r =
    (case jsonMarshal ae v of
       Inl e \<Rightarrow> Inl e
     | Inr b \<Rightarrow> Inr (r\<lparr> req_Body := Some b \<rparr>))"

definition WithQueryParameters :: "(string \<times> string) list \<Rightarrow> prepare_decorator" where
  "WithQueryParameters queryParameters r =
    (case req_URL r of
       None \<Rightarrow> Inl (GoError ''autorest#WithQueryParameters: Invoked with a nil URL'')
     | Some u \<Rightarrow> Inr (r\<lparr> req_URL := Some (u\<lparr> url_Query := url_Query u @ queryParameters \<rparr>) \<rparr>))"

fun CreatePreparer :: "prepare_decorator list \<Rightarrow> HttpRequest \<Rightarrow> go_error + HttpRequest" where
  "CreatePreparer [] r = Inr r"
| "CreatePreparer (decorate # decorators) r =
    (case decorate r of Inl e \<Rightarrow> Inl e | Inr r' \<Rightarrow> CreatePreparer decorators r')"

definition ExecutePreparer ::
    "autorest_env \<Rightarrow> 'w CheckNameAvailabilityClient \<Rightarrow> NameAvailabilityRequest \<Rightarrow>
       go_error + HttpRequest" where
  "ExecutePreparer ae client nameAvailabilityRequest =
    (let pathParameters = [(''subscriptionId'', autorestEncode ae ''path'' (cna_SubscriptionID client))];
         APIVersion = ''2017-04-30-preview'';
         queryParameters = [(''api-version'', APIVersion)]
     in CreatePreparer
          [AsJSON,
           AsPost,
           WithBaseURL ae (cna_BaseURI client),
           WithPathParameters ae
             ''/subscriptions/{subscriptionId}/providers/Microsoft.DBforMySQL/checkNameAvailability''
             pathParameters,
           WithJSON ae nameAvailabilityRequest,
           WithQueryParameters queryParameters]
          emptyRequest)"

definition ExecuteSender ::
    "'w CheckNameAvailabilityClient \<Rightarrow> HttpRequest \<Rightarrow> 'w wire \<Rightarrow>
       ((HttpResponse option \<times> go_error) + HttpResponse) \<times> 'w wire" where
  "ExecuteSender client req \<sigma> =
    (case cna_Sender client req (network \<sigma>) of
       (r, w') \<Rightarrow> (r, \<lparr> network = w', sent = sent \<sigma> @ [req] \<rparr>))"

text \<open>
  Modelled from the spec: the response decorators of the vendored go-autorest package
  (\<^verbatim>\<open>ByInspecting\<close>, \<^verbatim>\<open>azure.WithErrorUnlessStatusCode\<close>, \<^verbatim>\<open>ByUnmarshallingJSON\<close>,
  \<^verbatim>\<open>ByClosing\<close>), which are not among the sources. They follow the conventions the spec
  names (standard HTTP status codes, JSON response bodies): the decorators run in the
  order given, and each one after the first acts only when no error has occurred, except
  the closing of the body, which always happens and whose own failure becomes the error.
\<close>

definition ByInspecting :: "'w CheckNameAvailabilityClient \<Rightarrow> HttpResponse \<Rightarrow> go_error option" where
  "ByInspecting client resp =
    (case cna_ResponseInspector client of None \<Rightarrow> None | Some inspect \<Rightarrow> inspect resp)"

definition WithErrorUnlessStatusCode ::
    "autorest_env \<Rightarrow> int list \<Rightarrow> HttpResponse \<Rightarrow> go_error option \<Rightarrow> go_error option" where
  "WithErrorUnlessStatusCode ae codes resp err =
    (case err of
       Some e \<Rightarrow> Some e
     | None \<Rightarrow> if resp_StatusCode resp \<in> set codes then None else Some (statusError ae resp))"

definition ByUnmarshallingJSON ::
    "autorest_env \<Rightarrow> HttpResponse \<Rightarrow> NameAvailability \<Rightarrow> go_error option \<Rightarrow>
       go_error option \<times> NameAvailability" where
  "ByUnmarshallingJSON ae resp v err =
    (case err of
       Some e \<Rightarrow> (Some e, v)
     | None \<Rightarrow>
        (case resp_Body resp of
           Inl e \<Rightarrow>
             (Some (GoError (''Error occurred reading http.Response#Body - Error = '' @ [CHR 0x27]
                             @ errorText e @ [CHR 0x27])), v)
         | Inr b \<Rightarrow> jsonUnmarshal ae b v))"

definition ByClosing :: "autorest_env \<Rightarrow> HttpResponse \<Rightarrow> go_error option \<Rightarrow> go_error option" where
  "ByClosing ae resp err =
    (case closeBody ae resp of
       Some e \<Rightarrow> Some (GoError (''Error closing the response body: '' @ errorText e))
     | None \<Rightarrow> err)"

definition ExecuteResponder ::
    "autorest_env \<Rightarrow> 'w CheckNameAvailabilityClient \<Rightarrow> HttpResponse \<Rightarrow>
       NameAvailability \<times> go_error option" where
  "ExecuteResponder ae client resp =
    (let err = ByInspecting client resp;
         err = WithErrorUnlessStatusCode ae [200] resp err
     in case ByUnmarshallingJSON ae resp emptyNameAvailability err of
          (err, result) \<Rightarrow>
            (let err = ByClosing ae resp err
             in (result\<lparr> na_Response := Some resp \<rparr>, err)))"

text \<open>
  Modelled from the spec: \<^verbatim>\<open>validation.Validate\<close> of the vendored go-autorest package,
  which is not among the sources and which the spec leaves to the SDK. The model keeps the
  meaning of the one constraint that \<^verbatim>\<open>Execute\<close> passes to it: the target
  \<^verbatim>\<open>nameAvailabilityRequest.Name\<close> under the rule \<^verbatim>\<open>Null\<close> set to true fails when the
  pointer is nil.
\<close>

definition validateExecute :: "NameAvailabilityRequest \<Rightarrow> validation_failure option" where
  "validateExecute nameAvailabilityRequest =
    (if nar_Name nameAvailabilityRequest = None
     then Some (ConstraintFailed ''nameAvailabilityRequest.Name'' ''Null'')
     else None)"

definition Execute ::
    "autorest_env \<Rightarrow> 'w CheckNameAvailabilityClient \<Rightarrow> NameAvailabilityRequest \<Rightarrow> 'w wire \<Rightarrow>
       (NameAvailability \<times> autorest_error option) \<times> 'w wire" where
  "Execute ae client nameAvailabilityRequest \<sigma> =
    (case validateExecute nameAvailabilityRequest of
       Some verr \<Rightarrow>
         ((emptyNameAvailability,
           Some (ValidationError verr ''mysql.CheckNameAvailabilityClient'' ''Execute'')), \<sigma>)
     | None \<Rightarrow>
        (case ExecutePreparer ae client nameAvailabilityRequest of
           Inl err \<Rightarrow>
             ((emptyNameAvailability,
               Some (DetailedError err ''mysql.CheckNameAvailabilityClient'' ''Execute'' None
                       ''Failure preparing request'')), \<sigma>)
         | Inr req \<Rightarrow>
            (case ExecuteSender client req \<sigma> of
               (Inl (resp, err), \<sigma>1) \<Rightarrow>
                 ((emptyNameAvailability\<lparr> na_Response := resp \<rparr>,
                   Some (DetailedError err ''mysql.CheckNameAvailabilityClient'' ''Execute'' resp
                           ''Failure sending request'')), \<sigma>1)
             | (Inr resp, \<sigma>1) \<Rightarrow>
                (case ExecuteResponder ae client resp of
                   (result, Some err) \<Rightarrow>
                     ((result,
                       Some (DetailedError err ''mysql.CheckNameAvailabilityClient'' ''Execute''
                               (Some resp) ''Failure responding to request'')), \<sigma>1)
                 | (result, None) \<Rightarrow> ((result, None), \<sigma>1)))))"

section \<open>Concrete environments\<close>

text \<open>
  A concrete instance of the helpers and of the client, on which the theorems below are
  exercised: a resource ID parser that knows one ID, the not-found test on status 404,
  setters that store the value, and \<open>goQuote\<close> for the verb \<^verbatim>\<open>%q\<close>.
\<close>

definition exampleID :: string where
  "exampleID = ''/subscriptions/sub1/resourceGroups/rg1/providers/Microsoft.Scheduler/jobCollections/jc1''"

definition statusIs404 :: "HttpResponse option \<Rightarrow> bool" where
  "statusIs404 r = (case r of None \<Rightarrow> False | Some h \<Rightarrow> resp_StatusCode h = 404)"

definition exampleExternals :: externals where
  "exampleExternals =
    \<lparr> parseAzureResourceID =
        (\<lambda>s. if s = exampleID
             then Inr \<lparr> rid_SubscriptionID = ''sub1'', rid_ResourceGroup = ''rg1'',
                        rid_Provider = ''Microsoft.Scheduler'',
                        rid_Path = [''jobCollections'' \<mapsto> ''jc1''] \<rparr>
             else Inl (GoError ''Cannot parse Azure ID'')),
      ResponseWasNotFound = statusIs404,
      WasNotFound = statusIs404,
      azureRMNormalizeLocation = (\<lambda>s. s),
      expandTags = (\<lambda>m k. case m k of None \<Rightarrow> None | Some v \<Rightarrow> okString v),
      rdSet = (\<lambda>key v vals. (None, vals(key := v))),
      flattenAndSetTags = (\<lambda>t vals. (None, vals(''tags'' := IMap (\<lambda>k. map_option IString (t k))))),
      fmtQ = goQuote,
      fmtQPtr = (\<lambda>p. ''%!q(*string)'') \<rparr>"

definition exampleConfig :: ResourceData where
  "exampleConfig =
    \<lparr> rd_Id = '''',
      rd_values = (\<lambda>_. INil)
        (''name'' := IString ''jc1'',
         ''location'' := IString ''westus'',
         ''resource_group_name'' := IString ''rg1'',
         ''tags'' := IMap Map.empty,
         ''sku'' := IString ''Standard'',
         ''state'' := IString ''Enabled'',
         ''quota'' := IList []) \<rparr>"

definition httpStatus :: "int \<Rightarrow> HttpResponse option" where
  "httpStatus n = Some \<lparr> resp_StatusCode = n, resp_Body = Inr '''' \<rparr>"

definition exampleCollection :: "int \<Rightarrow> string option \<Rightarrow> JobCollectionDefinition" where
  "exampleCollection status ident =
    \<lparr> jcd_Response = httpStatus status, jcd_ID = ident, jcd_Type = None,
      jcd_Name = Some ''jc1'', jcd_Location = Some ''westus'', jcd_Tags = Map.empty,
      jcd_Properties = None \<rparr>"

text \<open>A client that answers every call with a fixed result and leaves the remote state alone.\<close>

definition scriptedClient ::
    "JobCollectionDefinition \<times> go_error option \<Rightarrow> JobCollectionDefinition \<times> go_error option \<Rightarrow>
     Future \<times> go_error option \<Rightarrow> Future \<times> go_error option \<Rightarrow> unit JobCollectionsClient" where
  "scriptedClient createResult getResult deleteResult waitResult =
    \<lparr> jc_CreateOrUpdate = (\<lambda>resourceGroup name collection s. (createResult, s)),
      jc_Get = (\<lambda>resourceGroup name s. (getResult, s)),
      jc_Delete = (\<lambda>resourceGroup name s. (deleteResult, s)),
      jc_WaitForCompletion = (\<lambda>future s. (waitResult, s)) \<rparr>"

definition okClient :: "unit JobCollectionsClient" where
  "okClient = scriptedClient (exampleCollection 200 (Some exampleID), None)
                (exampleCollection 200 (Some exampleID), None)
                (\<lparr> fut_Response = httpStatus 202 \<rparr>, None)
                (\<lparr> fut_Response = httpStatus 200 \<rparr>, None)"

definition failingClient :: "int \<Rightarrow> unit JobCollectionsClient" where
  "failingClient status =
     scriptedClient (exampleCollection status None, Some (GoError ''boom''))
                (exampleCollection status None, Some (GoError ''boom''))
                (\<lparr> fut_Response = httpStatus status \<rparr>, Some (GoError ''boom''))
                (\<lparr> fut_Response = httpStatus status \<rparr>, Some (GoError ''boom''))"

definition start :: "unit session" where
  "start = \<lparr> remote = (), calls = [] \<rparr>"

text \<open>
  A concrete environment of the MySQL client: an encoder that leaves the subscription ID
  alone (as the real one does for letters, digits and hyphens), a base URL check that asks
  for the https scheme, a JSON encoder of the request's name, and a JSON decoder that, like
  Go's, rejects a body that does not begin a JSON object.
\<close>

definition exampleAutorest :: autorest_env where
  "exampleAutorest =
    \<lparr> autorestEncode = (\<lambda>location v. v),
      baseURLError = (\<lambda>u. if prefix ''https://'' u then None
                           else Some (GoError ''autorest: No scheme detected in URL'')),
      urlParseError = (\<lambda>u. None),
      jsonMarshal = (\<lambda>r. Inr (''{'' @ goQuote ''name'' @ '':''
                              @ goQuote (case nar_Name r of None \<Rightarrow> [] | Some n \<Rightarrow> n) @ ''}'')),
      jsonUnmarshal = (\<lambda>b v. if prefix ''{'' b then (None, v\<lparr> na_NameAvailable := Some True \<rparr>)
                              else (Some (GoError ''invalid character looking for beginning of value''), v)),
      statusError = (\<lambda>r. GoError ''autorest/azure: Service returned an error''),
      closeBody = (\<lambda>r. None) \<rparr>"

definition exampleMysqlClient :: "unit CheckNameAvailabilityClient" where
  "exampleMysqlClient =
    \<lparr> cna_BaseURI = ''https://management.azure.com'',
      cna_SubscriptionID = ''1f2e3d4c-0000-4000-8000-00000000abcd'',
      cna_Sender = (\<lambda>req w. (Inr \<lparr> resp_StatusCode = 200, resp_Body = Inr ''{}'' \<rparr>, w)),
      cna_ResponseInspector = None \<rparr>"

definition idle :: "unit wire" where
  "idle = \<lparr> network = (), sent = [] \<rparr>"

definition exampleState :: ResourceData where
  "exampleState = exampleConfig\<lparr> rd_Id := exampleID \<rparr>"

text \<open>The example configuration with a name that holds a double quote: \<^verbatim>\<open>a"b\<close>.\<close>

definition quotedNameConfig :: ResourceData where
  "quotedNameConfig =
     exampleConfig\<lparr> rd_values := (rd_values exampleConfig)
        (''name'' := IString [CHR ''a'', CHR 0x22, CHR ''b'']) \<rparr>"

text \<open>A client whose create call succeeds, whose read fails and whose wait fails, with status 500.\<close>

definition halfwayClient :: "unit JobCollectionsClient" where
  "halfwayClient = scriptedClient (exampleCollection 200 (Some exampleID), None)
                (exampleCollection 500 None, Some (GoError ''boom''))
                (\<lparr> fut_Response = httpStatus 202 \<rparr>, None)
                (\<lparr> fut_Response = httpStatus 500 \<rparr>, Some (GoError ''boom''))"

text \<open>Whether an outcome is an error whose message contains the given text.\<close>

definition errorMentions :: "outcome \<Rightarrow> string \<Rightarrow> bool" where
  "errorMentions r s = (case r of Inr (Some e) \<Rightarrow> sublist s (errorText e) | _ \<Rightarrow> False)"

text \<open>
  Two clients for a delete that meets a missing collection. With the first, the
  \<^verbatim>\<open>Delete\<close> call fails with status 404, and the wait that follows fails and leaves
  status 500 on the future. The second keeps as remote state the last response on the
  wire: its \<^verbatim>\<open>Delete\<close> call is accepted with status 202, and its wait fails on a poll
  answered with status 404 and leaves the future as it was.
\<close>

definition lateFailureClient :: "unit JobCollectionsClient" where
  "lateFailureClient = scriptedClient (exampleCollection 200 (Some exampleID), None)
                (exampleCollection 200 (Some exampleID), None)
                (\<lparr> fut_Response = httpStatus 404 \<rparr>, Some (GoError ''gone''))
                (\<lparr> fut_Response = httpStatus 500 \<rparr>, Some (GoError ''boom''))"

definition staleFutureClient :: "HttpResponse option JobCollectionsClient" where
  "staleFutureClient =
    \<lparr> jc_CreateOrUpdate =
        (\<lambda>resourceGroup name collection s.
           ((exampleCollection 200 (Some exampleID), None), httpStatus 200)),
      jc_Get = (\<lambda>resourceGroup name s.
                  ((exampleCollection 200 (Some exampleID), None), httpStatus 200)),
      jc_Delete = (\<lambda>resourceGroup name s.
                     ((\<lparr> fut_Response = httpStatus 202 \<rparr>, None), httpStatus 202)),
      jc_WaitForCompletion = (\<lambda>future s. ((future, Some (GoError ''gone'')), httpStatus 404)) \<rparr>"

text \<open>The characters that \<open>quoteByte\<close> leaves as they are.\<close>

definition plainChar :: "char \<Rightarrow> bool" where
  "plainChar c =
    (0x20 \<le> (of_char c :: nat) \<and> (of_char c :: nat) < 0x7F \<and> c \<noteq> CHR 0x22 \<and> c \<noteq> CHR 0x5C)"

section \<open>Quota: expansion, flattening and their round trip\<close>

lemma sint_toInt32:
  assumes "fitsInt32 a"
  shows "sint (toInt32 a) = sint a"
proof -
  from assms have lo: "- (2 ^ 31) \<le> sint a" and hi: "sint a < 2 ^ 31"
    by (simp_all add: fitsInt32_def)
  have "sint (ucast a :: 32 word) = signed_take_bit 31 (uint (ucast a :: 32 word))"
    by (simp add: sint_uint)
  also have "\<dots> = signed_take_bit 31 (take_bit 32 (uint a))"
    by (simp add: unsigned_ucast_eq)
  also have "\<dots> = signed_take_bit 31 (uint a)"
    by (simp add: signed_take_bit_take_bit)
  also have "\<dots> = signed_take_bit 31 (signed_take_bit 63 (uint a))"
    by simp
  also have "\<dots> = signed_take_bit 31 (sint a)"
    by (simp add: sint_uint)
  also have "\<dots> = sint a"
    using lo hi by (simp add: signed_take_bit_int_eq_self)
  finally show ?thesis
    by (simp add: toInt32_def)
qed

lemma flattenExpand_known:
  assumes "x ''max_job_count'' = Some (IInt a)"
      and "x ''max_recurrence_frequency'' = Some (IString f)"
      and "x ''max_retry_interval'' = Some (IInt b)"
  shows "flattenExpand x =
           Inr (Some [IMap [''max_job_count'' \<mapsto> IInt32 (toInt32 a),
                            ''max_retry_interval'' \<mapsto> IInt32 (toInt32 b),
                            ''max_recurrence_frequency'' \<mapsto> IString f]])"
  using assms
  by (simp add: flattenExpand_def quotaConfig_def expandAzureArmSchedulerJobCollectionQuota_def
      flattenAzureArmSchedulerJobCollectionQuota_def dGet_def mapIndex_def)

text \<open>
  Claim C1, as amended. For a quota block \<open>x\<close> that holds the three known fields
  (\<open>max_job_count\<close> and \<open>max_retry_interval\<close> as Go ints \<open>a\<close> and \<open>b\<close>,
  \<open>max_recurrence_frequency\<close> as a string \<open>f\<close>), flattening the expansion of \<open>x\<close>
  gives a one-element list whose map holds the frequency \<open>f\<close> and the two integers
  converted to \<^verbatim>\<open>int32\<close>. The map therefore carries the same values as \<open>x\<close> whenever
  both integers fit in 32 bits (\<open>fitsInt32\<close>), which not every Go \<^verbatim>\<open>int\<close> does.
\<close>

theorem quota_round_trip_within_int32:
  assumes "x ''max_job_count'' = Some (IInt a)"
      and "x ''max_recurrence_frequency'' = Some (IString f)"
      and "x ''max_retry_interval'' = Some (IInt b)"
  shows "flattenExpand x =
           Inr (Some [IMap [''max_job_count'' \<mapsto> IInt32 (toInt32 a),
                            ''max_retry_interval'' \<mapsto> IInt32 (toInt32 b),
                            ''max_recurrence_frequency'' \<mapsto> IString f]])
         \<and> (fitsInt32 a \<and> fitsInt32 b \<longrightarrow> roundTripsKnownFields x)"
proof -
  note fe = flattenExpand_known [OF assms]
  have "roundTripsKnownFields x" if "fitsInt32 a" "fitsInt32 b"
    using that assms
    by (simp add: roundTripsKnownFields_def fe sameField_def sint_toInt32)
  with fe show ?thesis by simp
qed

theorem quota_round_trip_within_int32_witness:
  "flattenExpand [''max_job_count'' \<mapsto> IInt 5, ''max_recurrence_frequency'' \<mapsto> IString ''Hour'',
                  ''max_retry_interval'' \<mapsto> IInt 2]
     = Inr (Some [IMap [''max_job_count'' \<mapsto> IInt32 5, ''max_retry_interval'' \<mapsto> IInt32 2,
                        ''max_recurrence_frequency'' \<mapsto> IString ''Hour'']])
   \<and> fitsInt32 5 \<and> fitsInt32 2
   \<and> roundTripsKnownFields [''max_job_count'' \<mapsto> IInt 5,
        ''max_recurrence_frequency'' \<mapsto> IString ''Hour'', ''max_retry_interval'' \<mapsto> IInt 2]"
  using quota_round_trip_within_int32 [of "[''max_job_count'' \<mapsto> IInt 5,
        ''max_recurrence_frequency'' \<mapsto> IString ''Hour'', ''max_retry_interval'' \<mapsto> IInt 2]" 5 "''Hour''" 2]
  by (simp add: fitsInt32_def toInt32_def)

text \<open>
  Claim C1 as stated fails: the schema accepts every \<open>max_job_count\<close> of at least 0, and
  for \<open>2147483648\<close> (two to the 31) the conversion \<^verbatim>\<open>int32(v)\<close> wraps to
  \<open>-2147483648\<close>, so the flattened block does not carry the configured value.
\<close>

theorem quota_round_trip_counterexample:
  "flattenExpand [''max_job_count'' \<mapsto> IInt 2147483648,
        ''max_recurrence_frequency'' \<mapsto> IString ''Minute'', ''max_retry_interval'' \<mapsto> IInt 1]
     = Inr (Some [IMap [''max_job_count'' \<mapsto> IInt32 (toInt32 2147483648),
                        ''max_retry_interval'' \<mapsto> IInt32 1,
                        ''max_recurrence_frequency'' \<mapsto> IString ''Minute'']])
   \<and> intValue (IInt32 (toInt32 2147483648)) = Some (- 2147483648)
   \<and> intValue (IInt 2147483648) = Some 2147483648
   \<and> \<not> roundTripsKnownFields [''max_job_count'' \<mapsto> IInt 2147483648,
        ''max_recurrence_frequency'' \<mapsto> IString ''Minute'', ''max_retry_interval'' \<mapsto> IInt 1]"
  by (simp add: roundTripsKnownFields_def flattenExpand_def quotaConfig_def
      expandAzureArmSchedulerJobCollectionQuota_def
      flattenAzureArmSchedulerJobCollectionQuota_def dGet_def mapIndex_def sameField_def toInt32_def)

text \<open>
  Claim C10. The expansion is the nil pointer whenever \<^verbatim>\<open>d.Get("quota")\<close> is missing
  (the nil interface) or the empty list; flattening gives the nil slice exactly when the
  quota is nil, and a list of exactly one element for every other quota.
\<close>

theorem quota_absence_round_trips:
  "(dGet d ''quota'' = INil \<or> dGet d ''quota'' = IList [] \<longrightarrow>
      expandAzureArmSchedulerJobCollectionQuota d = Inr None)
   \<and> (flattenAzureArmSchedulerJobCollectionQuota quota = None \<longleftrightarrow> quota = None)
   \<and> (quota \<noteq> None \<longrightarrow>
        (\<exists>block. flattenAzureArmSchedulerJobCollectionQuota quota = Some [block]))"
  by (auto simp add: expandAzureArmSchedulerJobCollectionQuota_def
      flattenAzureArmSchedulerJobCollectionQuota_def Let_def split: option.splits)

theorem quota_absence_round_trips_witness:
  "dGet exampleConfig ''quota'' = IList []
   \<and> expandAzureArmSchedulerJobCollectionQuota exampleConfig = Inr None
   \<and> flattenAzureArmSchedulerJobCollectionQuota None = None
   \<and> (\<exists>block. flattenAzureArmSchedulerJobCollectionQuota
         (Some \<lparr> jcq_MaxJobCount = Some 5, jcq_MaxJobOccurrence = None,
                 jcq_MaxRecurrence = None \<rparr>) = Some [block])"
  using quota_absence_round_trips [of exampleConfig None]
    quota_absence_round_trips [of exampleConfig
      "Some \<lparr> jcq_MaxJobCount = Some 5, jcq_MaxJobOccurrence = None, jcq_MaxRecurrence = None \<rparr>"]
  by (simp add: exampleConfig_def dGet_def)

section \<open>Read: a collection that is not found\<close>

text \<open>
  Claim C2. When the resource ID parses, the client's \<^verbatim>\<open>Get\<close> returns an error and the
  response of the returned collection is a not-found response, the read function returns
  nil and leaves the resource data as it was except for the ID, which is the empty string.
\<close>

theorem read_not_found_clears_state:
  assumes "parseAzureResourceID ext (rd_Id d) = Inr rid"
      and "jc_Get client (rid_ResourceGroup rid) (pathIndex (rid_Path rid) ''jobCollections'')
             (remote \<sigma>) = ((collection, Some err), s')"
      and "ResponseWasNotFound ext (jcd_Response collection)"
  shows "fst (resourceArmSchedulerJobCollectionRead ext client d \<sigma>) = (Inr None, d\<lparr> rd_Id := '''' \<rparr>)"
  using assms
  by (simp add: resourceArmSchedulerJobCollectionRead_def clientGet_def dSetId_def)

theorem read_not_found_clears_state_witness:
  "parseAzureResourceID exampleExternals (rd_Id (exampleConfig\<lparr> rd_Id := exampleID \<rparr>)) =
      Inr \<lparr> rid_SubscriptionID = ''sub1'', rid_ResourceGroup = ''rg1'',
                        rid_Provider = ''Microsoft.Scheduler'',
                        rid_Path = [''jobCollections'' \<mapsto> ''jc1''] \<rparr>
   \<and> jc_Get (failingClient 404) ''rg1'' ''jc1'' (remote start) =
        ((exampleCollection 404 None, Some (GoError ''boom'')), ())
   \<and> ResponseWasNotFound exampleExternals (jcd_Response (exampleCollection 404 None))
   \<and> fst (resourceArmSchedulerJobCollectionRead exampleExternals (failingClient 404)
            (exampleConfig\<lparr> rd_Id := exampleID \<rparr>) start)
        = (Inr None, exampleConfig\<lparr> rd_Id := '''' \<rparr>)"
  using read_not_found_clears_state [of exampleExternals "exampleConfig\<lparr> rd_Id := exampleID \<rparr>"
      "\<lparr> rid_SubscriptionID = ''sub1'', rid_ResourceGroup = ''rg1'',
                        rid_Provider = ''Microsoft.Scheduler'',
                        rid_Path = [''jobCollections'' \<mapsto> ''jc1''] \<rparr>"
      "failingClient 404" start "exampleCollection 404 None" "GoError ''boom''" "()"]
  by (simp add: exampleExternals_def failingClient_def scriptedClient_def start_def
      exampleCollection_def httpStatus_def statusIs404_def pathIndex_def exampleConfig_def)

section \<open>Delete: a collection that is already gone\<close>

text \<open>
  Claim C3, as amended. When the resource ID parses and every step of the delete that
  fails (the client's \<^verbatim>\<open>Delete\<close> call, the wait for completion of its future) leaves
  a not-found response on the future, as \<^verbatim>\<open>future.Response()\<close> reads it after that
  step, the delete function returns nil and leaves the resource data as it was. A
  not-found failure of one step alone is not enough: after a \<^verbatim>\<open>Delete\<close> that failed
  with not-found the function still waits on the future, and after the wait it reads the
  response of the future, not that of the poll.
\<close>

theorem delete_not_found_is_success:
  assumes "parseAzureResourceID ext (rd_Id d) = Inr rid"
      and "jc_Delete client (rid_ResourceGroup rid) (pathIndex (rid_Path rid) ''jobCollections'')
             (remote \<sigma>) = ((future, derr), s1)"
      and "jc_WaitForCompletion client future s1 = ((future', werr), s2)"
      and "derr \<noteq> None \<longrightarrow> WasNotFound ext (fut_Response future)"
      and "werr \<noteq> None \<longrightarrow> WasNotFound ext (fut_Response future')"
  shows "fst (resourceArmSchedulerJobCollectionDelete ext client d \<sigma>) = (Inr None, d)"
proof -
  have d1: "unlessNotFound ext future derr = None"
    using assms(4) by (cases derr) (simp_all add: unlessNotFound_def)
  have d2: "unlessNotFound ext future' werr = None"
    using assms(5) by (cases werr) (simp_all add: unlessNotFound_def)
  show ?thesis
    using assms(1-3) d1 d2
    by (simp add: resourceArmSchedulerJobCollectionDelete_def clientDelete_def
        futureWaitForCompletion_def)
qed

theorem delete_not_found_is_success_witness:
  "parseAzureResourceID exampleExternals (rd_Id (exampleConfig\<lparr> rd_Id := exampleID \<rparr>)) =
      Inr \<lparr> rid_SubscriptionID = ''sub1'', rid_ResourceGroup = ''rg1'',
            rid_Provider = ''Microsoft.Scheduler'', rid_Path = [''jobCollections'' \<mapsto> ''jc1''] \<rparr>
   \<and> jc_Delete (failingClient 404) ''rg1'' ''jc1'' (remote start) =
        ((\<lparr> fut_Response = httpStatus 404 \<rparr>, Some (GoError ''boom'')), ())
   \<and> jc_WaitForCompletion (failingClient 404) \<lparr> fut_Response = httpStatus 404 \<rparr> () =
        ((\<lparr> fut_Response = httpStatus 404 \<rparr>, Some (GoError ''boom'')), ())
   \<and> WasNotFound exampleExternals (fut_Response \<lparr> fut_Response = httpStatus 404 \<rparr>)
   \<and> fst (resourceArmSchedulerJobCollectionDelete exampleExternals (failingClient 404)
            (exampleConfig\<lparr> rd_Id := exampleID \<rparr>) start)
        = (Inr None, exampleConfig\<lparr> rd_Id := exampleID \<rparr>)"
  using delete_not_found_is_success [of exampleExternals "exampleConfig\<lparr> rd_Id := exampleID \<rparr>"
      "\<lparr> rid_SubscriptionID = ''sub1'', rid_ResourceGroup = ''rg1'',
         rid_Provider = ''Microsoft.Scheduler'', rid_Path = [''jobCollections'' \<mapsto> ''jc1''] \<rparr>"
      "failingClient 404" start "\<lparr> fut_Response = httpStatus 404 \<rparr>" "Some (GoError ''boom'')" "()"
      "\<lparr> fut_Response = httpStatus 404 \<rparr>" "Some (GoError ''boom'')" "()"]
  by (simp add: exampleExternals_def failingClient_def scriptedClient_def start_def
      httpStatus_def statusIs404_def pathIndex_def exampleConfig_def)

text \<open>
  Claim C3 as stated fails in both of its cases. A \<^verbatim>\<open>Delete\<close> call that fails with a
  not-found response is followed by the wait, and when the wait fails and the future then
  shows status 500 the function returns the wait's error. And when the \<^verbatim>\<open>Delete\<close>
  call is accepted with status 202 and the wait fails on a poll answered with status 404
  but leaves the future alone, \<^verbatim>\<open>future.Response()\<close> is still the accepted response
  and the function returns the wait's error as well.
\<close>

theorem delete_not_found_counterexample:
  "jc_Delete lateFailureClient ''rg1'' ''jc1'' (remote start) =
      ((\<lparr> fut_Response = httpStatus 404 \<rparr>, Some (GoError ''gone'')), ())
   \<and> WasNotFound exampleExternals (fut_Response \<lparr> fut_Response = httpStatus 404 \<rparr>)
   \<and> fst (fst (resourceArmSchedulerJobCollectionDelete exampleExternals lateFailureClient
                   exampleState start)) =
       Inr (Some (GoError (''Error waiting for deletion of Scheduler Job Collection ''
                   @ goQuote ''jc1'' @ '' (Resource Group '' @ goQuote ''rg1'' @ ''): boom'')))
   \<and> jc_Delete staleFutureClient ''rg1'' ''jc1'' None =
      ((\<lparr> fut_Response = httpStatus 202 \<rparr>, None), httpStatus 202)
   \<and> jc_WaitForCompletion staleFutureClient \<lparr> fut_Response = httpStatus 202 \<rparr> (httpStatus 202) =
      ((\<lparr> fut_Response = httpStatus 202 \<rparr>, Some (GoError ''gone'')), httpStatus 404)
   \<and> WasNotFound exampleExternals (httpStatus 404)
   \<and> fst (fst (resourceArmSchedulerJobCollectionDelete exampleExternals staleFutureClient
                   exampleState \<lparr> remote = None, calls = [] \<rparr>)) =
       Inr (Some (GoError (''Error waiting for deletion of Scheduler Job Collection ''
                   @ goQuote ''jc1'' @ '' (Resource Group '' @ goQuote ''rg1'' @ ''): gone'')))
   \<and> remote (snd (resourceArmSchedulerJobCollectionDelete exampleExternals staleFutureClient
                   exampleState \<lparr> remote = None, calls = [] \<rparr>)) = httpStatus 404"
  by (simp add: resourceArmSchedulerJobCollectionDelete_def clientDelete_def
      futureWaitForCompletion_def unlessNotFound_def Let_def lateFailureClient_def
      staleFutureClient_def scriptedClient_def exampleExternals_def exampleState_def
      exampleConfig_def start_def httpStatus_def statusIs404_def pathIndex_def)

section \<open>The outcomes of create/update, read and delete\<close>

lemma createUpdate_create_fails:
  assumes "createUpdateRequest ext d = Inr (name, resourceGroup, collection)"
      and "jc_CreateOrUpdate client resourceGroup name collection (remote \<sigma>) = ((c1, Some e), s1)"
  shows "resourceArmSchedulerJobCollectionCreateUpdate ext client d \<sigma> =
           ((Inr (Some (GoError (''Error creating/updating Scheduler Job Collection ''
               @ fmtQ ext name @ '' (Resource Group '' @ fmtQ ext resourceGroup @ ''): ''
               @ errorText e))), d),
            \<lparr> remote = s1, calls = calls \<sigma> @ [CreateOrUpdateCall resourceGroup name] \<rparr>)"
  using assms
  by (simp add: resourceArmSchedulerJobCollectionCreateUpdate_def clientCreateOrUpdate_def)

lemma createUpdate_get_fails:
  assumes "createUpdateRequest ext d = Inr (name, resourceGroup, collection)"
      and "jc_CreateOrUpdate client resourceGroup name collection (remote \<sigma>) = ((c1, None), s1)"
      and "jc_Get client resourceGroup name s1 = ((c2, Some e), s2)"
  shows "resourceArmSchedulerJobCollectionCreateUpdate ext client d \<sigma> =
           ((Inr (Some (GoError (''Error reading Scheduler Job Collection ''
               @ fmtQ ext name @ '' after create/update (Resource Group ''
               @ fmtQ ext resourceGroup @ ''): '' @ errorText e))), d),
            \<lparr> remote = s2, calls = calls \<sigma> @ [CreateOrUpdateCall resourceGroup name,
                                              GetCall resourceGroup name] \<rparr>)"
  using assms
  by (simp add: resourceArmSchedulerJobCollectionCreateUpdate_def clientCreateOrUpdate_def
      clientGet_def)

lemma createUpdate_both_succeed:
  assumes "createUpdateRequest ext d = Inr (name, resourceGroup, collection)"
      and "jc_CreateOrUpdate client resourceGroup name collection (remote \<sigma>) = ((c1, None), s1)"
      and "jc_Get client resourceGroup name s1 = ((c2, None), s2)"
  shows "resourceArmSchedulerJobCollectionCreateUpdate ext client d \<sigma> =
           ((case jcd_ID c2 of
               None \<Rightarrow> (Inl NilDereferencePanic, d)
             | Some i \<Rightarrow> resourceArmSchedulerJobCollectionPopulate ext (dSetId d i) resourceGroup c2),
            \<lparr> remote = s2, calls = calls \<sigma> @ [CreateOrUpdateCall resourceGroup name,
                                              GetCall resourceGroup name] \<rparr>)"
  using assms
  by (simp add: resourceArmSchedulerJobCollectionCreateUpdate_def clientCreateOrUpdate_def
      clientGet_def split: option.splits)

lemma rd_Id_dSet [simp]: "rd_Id (snd (dSet ext d key v)) = rd_Id d"
  by (simp add: dSet_def split: prod.splits)

lemma rd_Id_populateTags [simp]: "rd_Id (snd (populateTags ext d resp)) = rd_Id d"
  by (simp add: populateTags_def dSetTags_def split: prod.splits option.splits)

lemma rd_Id_populate:
  "rd_Id (snd (resourceArmSchedulerJobCollectionPopulate ext d resourceGroup resp)) = rd_Id d"
proof -
  have q: "rd_Id d' = rd_Id d0" if "dSet ext d0 key v = (err, d')" for d0 d' key v err
    using rd_Id_dSet [of ext d0 key v] that by simp
  show ?thesis
    by (auto simp add: resourceArmSchedulerJobCollectionPopulate_def Let_def
        split: option.splits prod.splits dest!: q)
qed

lemma read_get_fails:
  assumes "parseAzureResourceID ext (rd_Id d) = Inr rid"
      and "jc_Get client (rid_ResourceGroup rid) (pathIndex (rid_Path rid) ''jobCollections'')
             (remote \<sigma>) = ((c, Some e), s1)"
      and "\<not> ResponseWasNotFound ext (jcd_Response c)"
  shows "fst (resourceArmSchedulerJobCollectionRead ext client d \<sigma>) =
           (Inr (Some (GoError (''Error making Read request on Scheduler Job Collection ''
               @ fmtQ ext (pathIndex (rid_Path rid) ''jobCollections'') @ '' (Resource Group ''
               @ fmtQ ext (rid_ResourceGroup rid) @ ''): '' @ errorText e))), d)"
  using assms
  by (simp add: resourceArmSchedulerJobCollectionRead_def clientGet_def Let_def)

lemma read_calls:
  assumes "parseAzureResourceID ext (rd_Id d) = Inr rid"
  shows "calls (snd (resourceArmSchedulerJobCollectionRead ext client d \<sigma>)) =
           calls \<sigma> @ [GetCall (rid_ResourceGroup rid) (pathIndex (rid_Path rid) ''jobCollections'')]"
  using assms
  by (simp add: resourceArmSchedulerJobCollectionRead_def clientGet_def Let_def
      split: prod.splits option.splits)

lemma delete_issue_fails:
  assumes "parseAzureResourceID ext (rd_Id d) = Inr rid"
      and "jc_Delete client (rid_ResourceGroup rid) (pathIndex (rid_Path rid) ''jobCollections'')
             (remote \<sigma>) = ((future, Some e), s1)"
      and "\<not> WasNotFound ext (fut_Response future)"
  shows "resourceArmSchedulerJobCollectionDelete ext client d \<sigma> =
           ((Inr (Some (GoError (''Error issuing delete request for Scheduler Job Collection ''
               @ fmtQ ext (pathIndex (rid_Path rid) ''jobCollections'') @ '' (Resource Group ''
               @ fmtQ ext (rid_ResourceGroup rid) @ ''): '' @ errorText e))), d),
            \<lparr> remote = s1, calls = calls \<sigma> @
               [DeleteCall (rid_ResourceGroup rid) (pathIndex (rid_Path rid) ''jobCollections'')] \<rparr>)"
  using assms
  by (simp add: resourceArmSchedulerJobCollectionDelete_def clientDelete_def unlessNotFound_def
      Let_def)

lemma delete_proceeds_to_wait:
  assumes "parseAzureResourceID ext (rd_Id d) = Inr rid"
      and "jc_Delete client (rid_ResourceGroup rid) (pathIndex (rid_Path rid) ''jobCollections'')
             (remote \<sigma>) = ((future, derr), s1)"
      and "derr = None \<or> WasNotFound ext (fut_Response future)"
      and "jc_WaitForCompletion client future s1 = ((future', werr), s2)"
  shows "resourceArmSchedulerJobCollectionDelete ext client d \<sigma> =
           ((case unlessNotFound ext future' werr of
               Some e \<Rightarrow> Inr (Some (GoError (''Error waiting for deletion of Scheduler Job Collection ''
                  @ fmtQ ext (pathIndex (rid_Path rid) ''jobCollections'') @ '' (Resource Group ''
                  @ fmtQ ext (rid_ResourceGroup rid) @ ''): '' @ errorText e)))
             | None \<Rightarrow> Inr None, d),
            \<lparr> remote = s2, calls = calls \<sigma> @
               [DeleteCall (rid_ResourceGroup rid) (pathIndex (rid_Path rid) ''jobCollections''),
                WaitForCompletionCall] \<rparr>)"
proof -
  have "unlessNotFound ext future derr = None"
    using assms(3) by (cases derr) (auto simp add: unlessNotFound_def)
  then show ?thesis
    using assms(1,2,4)
    by (simp add: resourceArmSchedulerJobCollectionDelete_def clientDelete_def
        futureWaitForCompletion_def Let_def split: option.splits)
qed

lemma exampleRequest:
  "createUpdateRequest exampleExternals exampleConfig =
     Inr (''jc1'', ''rg1'',
          \<lparr> jcd_Response = None, jcd_ID = None, jcd_Type = None, jcd_Name = None,
            jcd_Location = Some ''westus'', jcd_Tags = Map.empty,
            jcd_Properties = Some \<lparr> jcp_Sku = Some \<lparr> sku_Name = ''Standard'' \<rparr>,
                                     jcp_State = ''Enabled'', jcp_Quota = None \<rparr> \<rparr>)"
  by (simp add: createUpdateRequest_def exampleConfig_def exampleExternals_def dGet_def
      expandAzureArmSchedulerJobCollectionQuota_def)

lemma exampleState_request:
  "createUpdateRequest exampleExternals exampleState =
     Inr (''jc1'', ''rg1'',
          \<lparr> jcd_Response = None, jcd_ID = None, jcd_Type = None, jcd_Name = None,
            jcd_Location = Some ''westus'', jcd_Tags = Map.empty,
            jcd_Properties = Some \<lparr> jcp_Sku = Some \<lparr> sku_Name = ''Standard'' \<rparr>,
                                     jcp_State = ''Enabled'', jcp_Quota = None \<rparr> \<rparr>)"
  by (simp add: createUpdateRequest_def exampleState_def exampleConfig_def exampleExternals_def
      dGet_def expandAzureArmSchedulerJobCollectionQuota_def)

lemma exampleState_parse:
  "parseAzureResourceID exampleExternals (rd_Id exampleState) =
     Inr \<lparr> rid_SubscriptionID = ''sub1'', rid_ResourceGroup = ''rg1'',
           rid_Provider = ''Microsoft.Scheduler'', rid_Path = [''jobCollections'' \<mapsto> ''jc1''] \<rparr>"
  by (simp add: exampleState_def exampleExternals_def)

lemma quoteByte_plain: "plainChar c \<Longrightarrow> quoteByte c = [c]"
  by (simp add: quoteByte_def plainChar_def)

lemma goQuote_plain: "list_all plainChar s \<Longrightarrow> goQuote s = CHR 0x22 # s @ [CHR 0x22]"
  by (induction s) (simp_all add: goQuote_def quoteByte_plain)

text \<open>
  Claim C4, as amended. Every error of an SDK call that makes an operation fail is
  returned as an error whose message is a fixed text that holds the job collection name
  and the resource group name as the verb \<^verbatim>\<open>%q\<close> prints them, followed by the message
  of the SDK error unchanged. Create/update does so for every error of
  \<^verbatim>\<open>CreateOrUpdate\<close> and of the follow-up \<^verbatim>\<open>Get\<close>; read for an error of \<^verbatim>\<open>Get\<close>
  whose response is not a not-found response; delete for an error of \<^verbatim>\<open>Delete\<close> and
  for an error of the wait whose response is not a not-found response. By
  \<open>goQuote_plain\<close> the quoted form is the name itself between double quotes when the name
  has only printable ASCII characters other than the double quote and the backslash.
\<close>

theorem sdk_errors_are_wrapped:
  "(createUpdateRequest ext d = Inr (name, resourceGroup, collection) \<and>
    jc_CreateOrUpdate client resourceGroup name collection (remote \<sigma>) = ((c1, Some e), s1) \<longrightarrow>
      fst (fst (resourceArmSchedulerJobCollectionCreateUpdate ext client d \<sigma>)) =
        Inr (Some (GoError (''Error creating/updating Scheduler Job Collection ''
               @ fmtQ ext name @ '' (Resource Group '' @ fmtQ ext resourceGroup @ ''): ''
               @ errorText e))))
   \<and> (createUpdateRequest ext d = Inr (name, resourceGroup, collection) \<and>
      jc_CreateOrUpdate client resourceGroup name collection (remote \<sigma>) = ((c1, None), s1) \<and>
      jc_Get client resourceGroup name s1 = ((c2, Some e), s2) \<longrightarrow>
        fst (fst (resourceArmSchedulerJobCollectionCreateUpdate ext client d \<sigma>)) =
          Inr (Some (GoError (''Error reading Scheduler Job Collection ''
               @ fmtQ ext name @ '' after create/update (Resource Group ''
               @ fmtQ ext resourceGroup @ ''): '' @ errorText e))))
   \<and> (parseAzureResourceID ext (rd_Id d) = Inr rid \<and>
      jc_Get client (rid_ResourceGroup rid) (pathIndex (rid_Path rid) ''jobCollections'')
        (remote \<sigma>) = ((c, Some e), s1) \<and>
      \<not> ResponseWasNotFound ext (jcd_Response c) \<longrightarrow>
        fst (fst (resourceArmSchedulerJobCollectionRead ext client d \<sigma>)) =
          Inr (Some (GoError (''Error making Read request on Scheduler Job Collection ''
               @ fmtQ ext (pathIndex (rid_Path rid) ''jobCollections'') @ '' (Resource Group ''
               @ fmtQ ext (rid_ResourceGroup rid) @ ''): '' @ errorText e))))
   \<and> (parseAzureResourceID ext (rd_Id d) = Inr rid \<and>
      jc_Delete client (rid_ResourceGroup rid) (pathIndex (rid_Path rid) ''jobCollections'')
        (remote \<sigma>) = ((future, Some e), s1) \<and>
      \<not> WasNotFound ext (fut_Response future) \<longrightarrow>
        fst (fst (resourceArmSchedulerJobCollectionDelete ext client d \<sigma>)) =
          Inr (Some (GoError (''Error issuing delete request for Scheduler Job Collection ''
               @ fmtQ ext (pathIndex (rid_Path rid) ''jobCollections'') @ '' (Resource Group ''
               @ fmtQ ext (rid_ResourceGroup rid) @ ''): '' @ errorText e))))
   \<and> (parseAzureResourceID ext (rd_Id d) = Inr rid \<and>
      jc_Delete client (rid_ResourceGroup rid) (pathIndex (rid_Path rid) ''jobCollections'')
        (remote \<sigma>) = ((future, derr), s1) \<and>
      (derr = None \<or> WasNotFound ext (fut_Response future)) \<and>
      jc_WaitForCompletion client future s1 = ((future', Some e), s2) \<and>
      \<not> WasNotFound ext (fut_Response future') \<longrightarrow>
        fst (fst (resourceArmSchedulerJobCollectionDelete ext client d \<sigma>)) =
          Inr (Some (GoError (''Error waiting for deletion of Scheduler Job Collection ''
               @ fmtQ ext (pathIndex (rid_Path rid) ''jobCollections'') @ '' (Resource Group ''
               @ fmtQ ext (rid_ResourceGroup rid) @ ''): '' @ errorText e))))"
proof (intro conjI impI; elim conjE)
  assume "createUpdateRequest ext d = Inr (name, resourceGroup, collection)"
    and "jc_CreateOrUpdate client resourceGroup name collection (remote \<sigma>) = ((c1, Some e), s1)"
  then show "fst (fst (resourceArmSchedulerJobCollectionCreateUpdate ext client d \<sigma>)) =
        Inr (Some (GoError (''Error creating/updating Scheduler Job Collection ''
               @ fmtQ ext name @ '' (Resource Group '' @ fmtQ ext resourceGroup @ ''): ''
               @ errorText e)))"
    by (simp add: createUpdate_create_fails)
next
  assume "createUpdateRequest ext d = Inr (name, resourceGroup, collection)"
    and "jc_CreateOrUpdate client resourceGroup name collection (remote \<sigma>) = ((c1, None), s1)"
    and "jc_Get client resourceGroup name s1 = ((c2, Some e), s2)"
  then show "fst (fst (resourceArmSchedulerJobCollectionCreateUpdate ext client d \<sigma>)) =
          Inr (Some (GoError (''Error reading Scheduler Job Collection ''
               @ fmtQ ext name @ '' after create/update (Resource Group ''
               @ fmtQ ext resourceGroup @ ''): '' @ errorText e)))"
    by (simp add: createUpdate_get_fails)
next
  assume "parseAzureResourceID ext (rd_Id d) = Inr rid"
    and "jc_Get client (rid_ResourceGroup rid) (pathIndex (rid_Path rid) ''jobCollections'')
        (remote \<sigma>) = ((c, Some e), s1)"
    and "\<not> ResponseWasNotFound ext (jcd_Response c)"
  then show "fst (fst (resourceArmSchedulerJobCollectionRead ext client d \<sigma>)) =
          Inr (Some (GoError (''Error making Read request on Scheduler Job Collection ''
               @ fmtQ ext (pathIndex (rid_Path rid) ''jobCollections'') @ '' (Resource Group ''
               @ fmtQ ext (rid_ResourceGroup rid) @ ''): '' @ errorText e)))"
    by (simp add: read_get_fails)
next
  assume "parseAzureResourceID ext (rd_Id d) = Inr rid"
    and "jc_Delete client (rid_ResourceGroup rid) (pathIndex (rid_Path rid) ''jobCollections'')
        (remote \<sigma>) = ((future, Some e), s1)"
    and "\<not> WasNotFound ext (fut_Response future)"
  then show "fst (fst (resourceArmSchedulerJobCollectionDelete ext client d \<sigma>)) =
          Inr (Some (GoError (''Error issuing delete request for Scheduler Job Collection ''
               @ fmtQ ext (pathIndex (rid_Path rid) ''jobCollections'') @ '' (Resource Group ''
               @ fmtQ ext (rid_ResourceGroup rid) @ ''): '' @ errorText e)))"
    by (simp add: delete_issue_fails)
next
  assume "parseAzureResourceID ext (rd_Id d) = Inr rid"
    and "jc_Delete client (rid_ResourceGroup rid) (pathIndex (rid_Path rid) ''jobCollections'')
        (remote \<sigma>) = ((future, derr), s1)"
    and "derr = None \<or> WasNotFound ext (fut_Response future)"
    and "jc_WaitForCompletion client future s1 = ((future', Some e), s2)"
    and "\<not> WasNotFound ext (fut_Response future')"
  then show "fst (fst (resourceArmSchedulerJobCollectionDelete ext client d \<sigma>)) =
          Inr (Some (GoError (''Error waiting for deletion of Scheduler Job Collection ''
               @ fmtQ ext (pathIndex (rid_Path rid) ''jobCollections'') @ '' (Resource Group ''
               @ fmtQ ext (rid_ResourceGroup rid) @ ''): '' @ errorText e)))"
    by (simp add: delete_proceeds_to_wait unlessNotFound_def)
qed

theorem sdk_errors_are_wrapped_witness:
  "fst (fst (resourceArmSchedulerJobCollectionCreateUpdate exampleExternals (failingClient 500)
               exampleState start)) =
     Inr (Some (GoError (''Error creating/updating Scheduler Job Collection '' @ goQuote ''jc1''
                 @ '' (Resource Group '' @ goQuote ''rg1'' @ ''): boom'')))
   \<and> fst (fst (resourceArmSchedulerJobCollectionRead exampleExternals (failingClient 500)
               exampleState start)) =
     Inr (Some (GoError (''Error making Read request on Scheduler Job Collection '' @ goQuote ''jc1''
                 @ '' (Resource Group '' @ goQuote ''rg1'' @ ''): boom'')))
   \<and> fst (fst (resourceArmSchedulerJobCollectionDelete exampleExternals (failingClient 500)
               exampleState start)) =
     Inr (Some (GoError (''Error issuing delete request for Scheduler Job Collection ''
                 @ goQuote ''jc1'' @ '' (Resource Group '' @ goQuote ''rg1'' @ ''): boom'')))
   \<and> fst (fst (resourceArmSchedulerJobCollectionCreateUpdate exampleExternals halfwayClient
               exampleState start)) =
     Inr (Some (GoError (''Error reading Scheduler Job Collection '' @ goQuote ''jc1''
                 @ '' after create/update (Resource Group '' @ goQuote ''rg1'' @ ''): boom'')))
   \<and> fst (fst (resourceArmSchedulerJobCollectionDelete exampleExternals halfwayClient
               exampleState start)) =
     Inr (Some (GoError (''Error waiting for deletion of Scheduler Job Collection ''
                 @ goQuote ''jc1'' @ '' (Resource Group '' @ goQuote ''rg1'' @ ''): boom'')))"
  using sdk_errors_are_wrapped [where ext = exampleExternals and d = exampleState
      and client = halfwayClient and \<sigma> = start and name = "''jc1''"
      and resourceGroup = "''rg1''"
      and collection = "\<lparr> jcd_Response = None, jcd_ID = None, jcd_Type = None, jcd_Name = None,
            jcd_Location = Some ''westus'', jcd_Tags = Map.empty,
            jcd_Properties = Some \<lparr> jcp_Sku = Some \<lparr> sku_Name = ''Standard'' \<rparr>,
                                     jcp_State = ''Enabled'', jcp_Quota = None \<rparr> \<rparr>"
      and ?c1.0 = "exampleCollection 200 (Some exampleID)" and ?s1.0 = "()"
      and ?c2.0 = "exampleCollection 500 None" and ?s2.0 = "()"
      and e = "GoError ''boom''"
      and rid = "\<lparr> rid_SubscriptionID = ''sub1'', rid_ResourceGroup = ''rg1'',
           rid_Provider = ''Microsoft.Scheduler'', rid_Path = [''jobCollections'' \<mapsto> ''jc1''] \<rparr>"
      and future = "\<lparr> fut_Response = httpStatus 202 \<rparr>" and derr = None
      and future' = "\<lparr> fut_Response = httpStatus 500 \<rparr>"]
    sdk_errors_are_wrapped [where ext = exampleExternals and d = exampleState
      and client = "failingClient 500" and \<sigma> = start and name = "''jc1''"
      and resourceGroup = "''rg1''"
      and collection = "\<lparr> jcd_Response = None, jcd_ID = None, jcd_Type = None, jcd_Name = None,
            jcd_Location = Some ''westus'', jcd_Tags = Map.empty,
            jcd_Properties = Some \<lparr> jcp_Sku = Some \<lparr> sku_Name = ''Standard'' \<rparr>,
                                     jcp_State = ''Enabled'', jcp_Quota = None \<rparr> \<rparr>"
      and ?c1.0 = "exampleCollection 500 None" and c = "exampleCollection 500 None"
      and e = "GoError ''boom''" and ?s1.0 = "()"
      and rid = "\<lparr> rid_SubscriptionID = ''sub1'', rid_ResourceGroup = ''rg1'',
           rid_Provider = ''Microsoft.Scheduler'', rid_Path = [''jobCollections'' \<mapsto> ''jc1''] \<rparr>"
      and future = "\<lparr> fut_Response = httpStatus 500 \<rparr>"]
    exampleState_request exampleState_parse
  by (simp add: exampleExternals_def failingClient_def halfwayClient_def scriptedClient_def
      start_def exampleCollection_def httpStatus_def statusIs404_def pathIndex_def)

lemma quotedName_error:
  "fst (fst (resourceArmSchedulerJobCollectionCreateUpdate exampleExternals (failingClient 500)
               quotedNameConfig start)) =
     Inr (Some (GoError (''Error creating/updating Scheduler Job Collection ''
                 @ [CHR 0x22, CHR ''a'', CHR 0x5C, CHR 0x22, CHR ''b'', CHR 0x22]
                 @ '' (Resource Group '' @ [CHR 0x22] @ ''rg1'' @ [CHR 0x22] @ ''): boom'')))"
  by (simp add: resourceArmSchedulerJobCollectionCreateUpdate_def createUpdateRequest_def
      quotedNameConfig_def exampleConfig_def exampleExternals_def dGet_def
      expandAzureArmSchedulerJobCollectionQuota_def clientCreateOrUpdate_def failingClient_def
      scriptedClient_def start_def goQuote_def quoteByte_def)

text \<open>
  Claim C4 as stated fails for a name that \<^verbatim>\<open>%q\<close> escapes. The schema puts no
  constraint on \<open>name\<close>; with the name \<^verbatim>\<open>a"b\<close> and a client whose create call fails with
  status 500 and the error \<^verbatim>\<open>boom\<close>, the returned message holds \<^verbatim>\<open>"a\"b"\<close> and the
  text \<^verbatim>\<open>boom\<close>, but nowhere the name itself.
\<close>

theorem sdk_error_message_counterexample:
  "dGet quotedNameConfig ''name'' = IString [CHR ''a'', CHR 0x22, CHR ''b'']
   \<and> errorMentions (fst (fst (resourceArmSchedulerJobCollectionCreateUpdate exampleExternals
       (failingClient 500) quotedNameConfig start))) ''boom''
   \<and> \<not> errorMentions (fst (fst (resourceArmSchedulerJobCollectionCreateUpdate exampleExternals
       (failingClient 500) quotedNameConfig start))) [CHR ''a'', CHR 0x22, CHR ''b'']"
proof -
  have configured: "dGet quotedNameConfig ''name'' = IString [CHR ''a'', CHR 0x22, CHR ''b'']"
    by (simp add: quotedNameConfig_def dGet_def)
  have message: "errorMentions (fst (fst (resourceArmSchedulerJobCollectionCreateUpdate
         exampleExternals (failingClient 500) quotedNameConfig start))) ''boom''
     \<and> \<not> errorMentions (fst (fst (resourceArmSchedulerJobCollectionCreateUpdate
         exampleExternals (failingClient 500) quotedNameConfig start)))
           [CHR ''a'', CHR 0x22, CHR ''b'']"
    by (simp add: quotedName_error errorMentions_def sublist_code prefix_code)
  from configured message show ?thesis by blast
qed

section \<open>The client calls of each operation\<close>

lemma createUpdate_calls:
  assumes "createUpdateRequest ext d = Inr (name, resourceGroup, collection)"
      and "jc_CreateOrUpdate client resourceGroup name collection (remote \<sigma>) = ((c1, e1), s1)"
  shows "calls (snd (resourceArmSchedulerJobCollectionCreateUpdate ext client d \<sigma>)) =
           calls \<sigma> @ (if e1 = None
                       then [CreateOrUpdateCall resourceGroup name, GetCall resourceGroup name]
                       else [CreateOrUpdateCall resourceGroup name])"
proof (cases e1)
  case None
  obtain c2 e2 s2 where g: "jc_Get client resourceGroup name s1 = ((c2, e2), s2)"
    by (metis surj_pair)
  show ?thesis
  proof (cases e2)
    case None
    with \<open>e1 = None\<close> assms g show ?thesis
      by (simp add: createUpdate_both_succeed)
  next
    case (Some e)
    with \<open>e1 = None\<close> assms g show ?thesis
      by (simp add: createUpdate_get_fails)
  qed
next
  case (Some e)
  with assms show ?thesis
    by (simp add: createUpdate_create_fails)
qed

lemma delete_calls:
  assumes "parseAzureResourceID ext (rd_Id d) = Inr rid"
      and "jc_Delete client (rid_ResourceGroup rid) (pathIndex (rid_Path rid) ''jobCollections'')
             (remote \<sigma>) = ((future, derr), s1)"
  shows "calls (snd (resourceArmSchedulerJobCollectionDelete ext client d \<sigma>)) =
           calls \<sigma> @ (if derr = None \<or> WasNotFound ext (fut_Response future)
                       then [DeleteCall (rid_ResourceGroup rid)
                               (pathIndex (rid_Path rid) ''jobCollections''),
                             WaitForCompletionCall]
                       else [DeleteCall (rid_ResourceGroup rid)
                               (pathIndex (rid_Path rid) ''jobCollections'')])"
proof (cases "derr = None \<or> WasNotFound ext (fut_Response future)")
  case True
  obtain future' werr s2 where w: "jc_WaitForCompletion client future s1 = ((future', werr), s2)"
    by (metis surj_pair)
  from True show ?thesis
    by (simp add: delete_proceeds_to_wait [OF assms True w])
next
  case False
  then obtain e where e: "derr = Some e" and nf: "\<not> WasNotFound ext (fut_Response future)"
    by auto
  from False show ?thesis
    using delete_issue_fails [OF assms(1) assms(2) [unfolded e] nf] by simp
qed

text \<open>
  Claim C5, as amended. Each operation makes its client calls one after the other, each
  finished before the next starts. Once the configuration has been read, create/update
  makes one \<^verbatim>\<open>CreateOrUpdate\<close> call and, when that call succeeds, one follow-up
  \<^verbatim>\<open>Get\<close> call. Once the resource ID has parsed, read makes one \<^verbatim>\<open>Get\<close> call, and
  delete makes one \<^verbatim>\<open>Delete\<close> call and then waits for the completion of the
  returned future, unless the call failed with a response other than not-found.
\<close>

theorem crud_client_call_sequences:
  "(createUpdateRequest ext d = Inr (name, resourceGroup, collection) \<and>
    jc_CreateOrUpdate client resourceGroup name collection (remote \<sigma>) = ((c1, e1), s1) \<longrightarrow>
      calls (snd (resourceArmSchedulerJobCollectionCreateUpdate ext client d \<sigma>)) =
        calls \<sigma> @ (if e1 = None
                    then [CreateOrUpdateCall resourceGroup name, GetCall resourceGroup name]
                    else [CreateOrUpdateCall resourceGroup name]))
   \<and> (parseAzureResourceID ext (rd_Id d) = Inr rid \<longrightarrow>
        calls (snd (resourceArmSchedulerJobCollectionRead ext client d \<sigma>)) =
          calls \<sigma> @ [GetCall (rid_ResourceGroup rid)
                        (pathIndex (rid_Path rid) ''jobCollections'')])
   \<and> (parseAzureResourceID ext (rd_Id d) = Inr rid \<and>
      jc_Delete client (rid_ResourceGroup rid) (pathIndex (rid_Path rid) ''jobCollections'')
        (remote \<sigma>) = ((future, derr), s2) \<longrightarrow>
        calls (snd (resourceArmSchedulerJobCollectionDelete ext client d \<sigma>)) =
          calls \<sigma> @ (if derr = None \<or> WasNotFound ext (fut_Response future)
                      then [DeleteCall (rid_ResourceGroup rid)
                              (pathIndex (rid_Path rid) ''jobCollections''),
                            WaitForCompletionCall]
                      else [DeleteCall (rid_ResourceGroup rid)
                              (pathIndex (rid_Path rid) ''jobCollections'')]))"
  using createUpdate_calls [of ext d name resourceGroup collection client \<sigma> c1 e1 s1]
    read_calls [of ext d rid client \<sigma>]
    delete_calls [of ext d rid client \<sigma> future derr s2]
  by blast

theorem crud_client_call_sequences_witness:
  "calls (snd (resourceArmSchedulerJobCollectionCreateUpdate exampleExternals okClient
                 exampleState start)) =
     [CreateOrUpdateCall ''rg1'' ''jc1'', GetCall ''rg1'' ''jc1'']
   \<and> calls (snd (resourceArmSchedulerJobCollectionRead exampleExternals okClient
                 exampleState start)) = [GetCall ''rg1'' ''jc1'']
   \<and> calls (snd (resourceArmSchedulerJobCollectionDelete exampleExternals okClient
                 exampleState start)) = [DeleteCall ''rg1'' ''jc1'', WaitForCompletionCall]"
  using crud_client_call_sequences [where ext = exampleExternals and d = exampleState
      and client = okClient and \<sigma> = start and name = "''jc1''"
      and resourceGroup = "''rg1''"
      and collection = "\<lparr> jcd_Response = None, jcd_ID = None, jcd_Type = None, jcd_Name = None,
            jcd_Location = Some ''westus'', jcd_Tags = Map.empty,
            jcd_Properties = Some \<lparr> jcp_Sku = Some \<lparr> sku_Name = ''Standard'' \<rparr>,
                                     jcp_State = ''Enabled'', jcp_Quota = None \<rparr> \<rparr>"
      and ?c1.0 = "exampleCollection 200 (Some exampleID)" and ?e1.0 = None and ?s1.0 = "()"
      and rid = "\<lparr> rid_SubscriptionID = ''sub1'', rid_ResourceGroup = ''rg1'',
           rid_Provider = ''Microsoft.Scheduler'', rid_Path = [''jobCollections'' \<mapsto> ''jc1''] \<rparr>"
      and future = "\<lparr> fut_Response = httpStatus 202 \<rparr>" and derr = None and ?s2.0 = "()"]
    exampleState_request exampleState_parse
  by (simp add: okClient_def scriptedClient_def start_def pathIndex_def)

text \<open>
  Claim C5 as stated fails for create/update: against a client whose calls succeed it
  makes two client calls, \<^verbatim>\<open>CreateOrUpdate\<close> and then \<^verbatim>\<open>Get\<close>.
\<close>

theorem single_round_trip_counterexample:
  "calls start = []
   \<and> calls (snd (resourceArmSchedulerJobCollectionCreateUpdate exampleExternals okClient
                 exampleConfig start)) =
       [CreateOrUpdateCall ''rg1'' ''jc1'', GetCall ''rg1'' ''jc1'']
   \<and> length (calls (snd (resourceArmSchedulerJobCollectionCreateUpdate exampleExternals okClient
                 exampleConfig start))) \<noteq> 1"
proof -
  have "calls (snd (resourceArmSchedulerJobCollectionCreateUpdate exampleExternals okClient
                 exampleConfig start)) =
       [CreateOrUpdateCall ''rg1'' ''jc1'', GetCall ''rg1'' ''jc1'']"
    using createUpdate_both_succeed [OF exampleRequest, of okClient start
          "exampleCollection 200 (Some exampleID)" "()" "exampleCollection 200 (Some exampleID)" "()"]
    by (simp add: okClient_def scriptedClient_def start_def)
  then show ?thesis by (simp add: start_def)
qed

section \<open>Create/update: when the resource ID is set\<close>

text \<open>
  Claim C6. Let the configuration be readable, and name the results of the
  \<^verbatim>\<open>CreateOrUpdate\<close> call and of the \<^verbatim>\<open>Get\<close> call that follows it. When both calls
  succeed and the collection that \<^verbatim>\<open>Get\<close> returns has the ID \<open>i\<close>, the resource ID is
  \<open>i\<close> when the function ends. When either call fails, the function returns an error
  and the resource data, the resource ID included, is as it was.
\<close>

theorem create_update_sets_id_after_both_calls:
  assumes "createUpdateRequest ext d = Inr (name, resourceGroup, collection)"
      and "jc_CreateOrUpdate client resourceGroup name collection (remote \<sigma>) = ((c1, e1), s1)"
      and "jc_Get client resourceGroup name s1 = ((c2, e2), s2)"
  shows "(e1 = None \<and> e2 = None \<and> jcd_ID c2 = Some i \<longrightarrow>
            rd_Id (snd (fst (resourceArmSchedulerJobCollectionCreateUpdate ext client d \<sigma>))) = i)
       \<and> (e1 \<noteq> None \<or> e2 \<noteq> None \<longrightarrow>
            (\<exists>err. fst (fst (resourceArmSchedulerJobCollectionCreateUpdate ext client d \<sigma>)) =
                     Inr (Some err))
            \<and> snd (fst (resourceArmSchedulerJobCollectionCreateUpdate ext client d \<sigma>)) = d)"
proof (intro conjI impI)
  assume "e1 = None \<and> e2 = None \<and> jcd_ID c2 = Some i"
  with assms show "rd_Id (snd (fst (resourceArmSchedulerJobCollectionCreateUpdate ext client d \<sigma>))) = i"
    by (simp add: createUpdate_both_succeed rd_Id_populate dSetId_def)
next
  assume f: "e1 \<noteq> None \<or> e2 \<noteq> None"
  show "\<exists>err. fst (fst (resourceArmSchedulerJobCollectionCreateUpdate ext client d \<sigma>)) =
               Inr (Some err)"
  proof (cases e1)
    case (Some e)
    with assms show ?thesis by (simp add: createUpdate_create_fails)
  next
    case None
    with f obtain e where "e2 = Some e" by auto
    with None assms show ?thesis by (simp add: createUpdate_get_fails)
  qed
  show "snd (fst (resourceArmSchedulerJobCollectionCreateUpdate ext client d \<sigma>)) = d"
  proof (cases e1)
    case (Some e)
    with assms show ?thesis by (simp add: createUpdate_create_fails)
  next
    case None
    with f obtain e where "e2 = Some e" by auto
    with None assms show ?thesis by (simp add: createUpdate_get_fails)
  qed
qed

theorem create_update_sets_id_after_both_calls_witness:
  "rd_Id exampleConfig = ''''
   \<and> rd_Id (snd (fst (resourceArmSchedulerJobCollectionCreateUpdate exampleExternals okClient
                        exampleConfig start))) = exampleID
   \<and> (\<exists>err. fst (fst (resourceArmSchedulerJobCollectionCreateUpdate exampleExternals halfwayClient
                        exampleConfig start)) = Inr (Some err))
   \<and> snd (fst (resourceArmSchedulerJobCollectionCreateUpdate exampleExternals halfwayClient
                        exampleConfig start)) = exampleConfig"
  using create_update_sets_id_after_both_calls [OF exampleRequest, of okClient start
      "exampleCollection 200 (Some exampleID)" None "()"
      "exampleCollection 200 (Some exampleID)" None "()" exampleID]
    create_update_sets_id_after_both_calls [OF exampleRequest, of halfwayClient start
      "exampleCollection 200 (Some exampleID)" None "()"
      "exampleCollection 500 None" "Some (GoError ''boom'')" "()" exampleID]
  by (simp add: okClient_def halfwayClient_def scriptedClient_def start_def exampleCollection_def
      exampleConfig_def)

section \<open>The MySQL name availability client\<close>

lemma replace_subscriptionId:
  "replaceAll ''{subscriptionId}'' v
     ''/subscriptions/{subscriptionId}/providers/Microsoft.DBforMySQL/checkNameAvailability'' =
   ''/subscriptions/'' @ v @ ''/providers/Microsoft.DBforMySQL/checkNameAvailability''"
  by simp

text \<open>
  Claim C7. For every request, when the client's base URI is accepted, the URL text
  parses and the request encodes as JSON, \<^verbatim>\<open>ExecutePreparer\<close> gives a POST request
  whose path, appended to the base URI, is
  \<^verbatim>\<open>/subscriptions/{subscriptionId}/providers/Microsoft.DBforMySQL/checkNameAvailability\<close>
  with the client's subscription ID, as \<^verbatim>\<open>autorest.Encode("path", ...)\<close> gives it, in
  the place of \<^verbatim>\<open>{subscriptionId}\<close>; whose query holds \<^verbatim>\<open>api-version\<close> with the value
  \<^verbatim>\<open>2017-04-30-preview\<close> and nothing else; and whose body is the JSON encoding of the
  request.
\<close>

theorem execute_preparer_builds_post_request:
  assumes "baseURLError ae (cna_BaseURI client) = None"
      and "urlParseError ae
             (trimRightSlash (cna_BaseURI client) @ ''/subscriptions/''
                @ autorestEncode ae ''path'' (cna_SubscriptionID client)
                @ ''/providers/Microsoft.DBforMySQL/checkNameAvailability'') = None"
      and "jsonMarshal ae nameAvailabilityRequest = Inr body"
  shows "ExecutePreparer ae client nameAvailabilityRequest =
           Inr \<lparr> req_Method = ''POST'',
                 req_URL = Some \<lparr> url_Base = trimRightSlash (cna_BaseURI client),
                                  url_Path = ''/subscriptions/''
                                     @ autorestEncode ae ''path'' (cna_SubscriptionID client)
                                     @ ''/providers/Microsoft.DBforMySQL/checkNameAvailability'',
                                  url_Query = [(''api-version'', ''2017-04-30-preview'')] \<rparr>,
                 req_Header = [''Content-Type'' \<mapsto> ''application/json''],
                 req_Body = Some body \<rparr>"
proof -
  let ?p = "''/subscriptions/'' @ autorestEncode ae ''path'' (cna_SubscriptionID client)
              @ ''/providers/Microsoft.DBforMySQL/checkNameAvailability''"
  have pre: "prefix ''/'' ?p" by simp
  show ?thesis
    using assms pre
    by (simp add: ExecutePreparer_def AsJSON_def AsPost_def WithBaseURL_def
        WithPathParameters_def WithJSON_def WithQueryParameters_def emptyRequest_def
        replace_subscriptionId del: replaceAll.simps)
qed

theorem execute_preparer_builds_post_request_witness:
  "baseURLError exampleAutorest (cna_BaseURI exampleMysqlClient) = None
   \<and> jsonMarshal exampleAutorest \<lparr> nar_Name = Some ''db1'', nar_Type = None \<rparr> =
        Inr (''{'' @ goQuote ''name'' @ '':'' @ goQuote ''db1'' @ ''}'')
   \<and> ExecutePreparer exampleAutorest exampleMysqlClient
        \<lparr> nar_Name = Some ''db1'', nar_Type = None \<rparr> =
      Inr \<lparr> req_Method = ''POST'',
            req_URL = Some \<lparr> url_Base = ''https://management.azure.com'',
              url_Path = ''/subscriptions/1f2e3d4c-0000-4000-8000-00000000abcd/providers/Microsoft.DBforMySQL/checkNameAvailability'',
              url_Query = [(''api-version'', ''2017-04-30-preview'')] \<rparr>,
            req_Header = [''Content-Type'' \<mapsto> ''application/json''],
            req_Body = Some (''{'' @ goQuote ''name'' @ '':'' @ goQuote ''db1'' @ ''}'') \<rparr>"
  using execute_preparer_builds_post_request [of exampleAutorest exampleMysqlClient
      "\<lparr> nar_Name = Some ''db1'', nar_Type = None \<rparr>"
      "''{'' @ goQuote ''name'' @ '':'' @ goQuote ''db1'' @ ''}''"]
  by (simp add: exampleAutorest_def exampleMysqlClient_def trimRightSlash_def)

lemma responder_error:
  "snd (ExecuteResponder ae client resp) =
     ByClosing ae resp
       (fst (ByUnmarshallingJSON ae resp emptyNameAvailability
               (WithErrorUnlessStatusCode ae [200] resp (ByInspecting client resp))))"
  by (simp add: ExecuteResponder_def Let_def split: prod.splits)

text \<open>
  Claim C8, as amended. \<^verbatim>\<open>ExecuteResponder\<close> returns an error for every status code
  other than 200. It returns no error exactly when the client's response inspector
  accepts the response, the status code is 200, the body is read and decoded as JSON
  without error, and the body closes without error.
\<close>

theorem execute_responder_success_iff:
  "(resp_StatusCode resp \<noteq> 200 \<longrightarrow> snd (ExecuteResponder ae client resp) \<noteq> None)
   \<and> (snd (ExecuteResponder ae client resp) = None \<longleftrightarrow>
        ByInspecting client resp = None \<and> resp_StatusCode resp = 200 \<and>
        (\<exists>b. resp_Body resp = Inr b \<and> fst (jsonUnmarshal ae b emptyNameAvailability) = None) \<and>
        closeBody ae resp = None)
   \<and> (snd (ExecuteResponder ae client resp) = None \<and> resp_Body resp = Inr b \<longrightarrow>
        fst (ExecuteResponder ae client resp) =
          (snd (jsonUnmarshal ae b emptyNameAvailability))\<lparr> na_Response := Some resp \<rparr>)"
proof -
  have iff: "snd (ExecuteResponder ae client resp) = None \<longleftrightarrow>
        ByInspecting client resp = None \<and> resp_StatusCode resp = 200 \<and>
        (\<exists>b. resp_Body resp = Inr b \<and> fst (jsonUnmarshal ae b emptyNameAvailability) = None) \<and>
        closeBody ae resp = None"
    by (auto simp add: responder_error ByClosing_def ByUnmarshallingJSON_def
        WithErrorUnlessStatusCode_def split: option.splits sum.splits if_splits)
  have val: "fst (ExecuteResponder ae client resp) =
          (snd (jsonUnmarshal ae b emptyNameAvailability))\<lparr> na_Response := Some resp \<rparr>"
    if "snd (ExecuteResponder ae client resp) = None" and "resp_Body resp = Inr b"
    using that iff
    by (simp add: ExecuteResponder_def ByUnmarshallingJSON_def WithErrorUnlessStatusCode_def
        Let_def split: prod.splits)
  from iff val show ?thesis by blast
qed

theorem execute_responder_success_iff_witness:
  "snd (ExecuteResponder exampleAutorest exampleMysqlClient
          \<lparr> resp_StatusCode = 200, resp_Body = Inr ''{}'' \<rparr>) = None
   \<and> fst (ExecuteResponder exampleAutorest exampleMysqlClient
          \<lparr> resp_StatusCode = 200, resp_Body = Inr ''{}'' \<rparr>) =
       emptyNameAvailability\<lparr> na_NameAvailable := Some True,
          na_Response := Some \<lparr> resp_StatusCode = 200, resp_Body = Inr ''{}'' \<rparr> \<rparr>
   \<and> snd (ExecuteResponder exampleAutorest exampleMysqlClient
          \<lparr> resp_StatusCode = 404, resp_Body = Inr ''{}'' \<rparr>) \<noteq> None"
  using execute_responder_success_iff [of "\<lparr> resp_StatusCode = 200, resp_Body = Inr ''{}'' \<rparr>"
      exampleAutorest exampleMysqlClient "''{}''"]
    execute_responder_success_iff [of "\<lparr> resp_StatusCode = 404, resp_Body = Inr ''{}'' \<rparr>"
      exampleAutorest exampleMysqlClient "''{}''"]
  by (simp add: exampleAutorest_def exampleMysqlClient_def ByInspecting_def)

text \<open>
  Claim C8 as stated fails in one direction: a response with status 200 whose body is not
  JSON (here \<^verbatim>\<open><html>\<close>) makes \<^verbatim>\<open>ExecuteResponder\<close> return the decoding error.
\<close>

theorem execute_responder_ok_status_counterexample:
  "resp_StatusCode \<lparr> resp_StatusCode = 200, resp_Body = Inr ''<html>'' \<rparr> = 200
   \<and> snd (ExecuteResponder exampleAutorest exampleMysqlClient
          \<lparr> resp_StatusCode = 200, resp_Body = Inr ''<html>'' \<rparr>) =
       Some (GoError ''invalid character looking for beginning of value'')
   \<and> snd (ExecuteResponder exampleAutorest exampleMysqlClient
          \<lparr> resp_StatusCode = 200, resp_Body = Inr ''<html>'' \<rparr>) \<noteq> None"
  by (simp add: ExecuteResponder_def ByInspecting_def WithErrorUnlessStatusCode_def
      ByUnmarshallingJSON_def ByClosing_def exampleAutorest_def exampleMysqlClient_def)

text \<open>
  Claim C9. When the request's \<^verbatim>\<open>Name\<close> is nil, \<^verbatim>\<open>Execute\<close> returns the empty result
  and the validation error of the constraint on \<^verbatim>\<open>nameAvailabilityRequest.Name\<close>,
  whatever the preparer would do, and hands no request to the sender: the wire is as it
  was.
\<close>

theorem execute_validates_name_first:
  assumes "nar_Name nameAvailabilityRequest = None"
  shows "Execute ae client nameAvailabilityRequest \<sigma> =
           ((emptyNameAvailability,
             Some (ValidationError (ConstraintFailed ''nameAvailabilityRequest.Name'' ''Null'')
                     ''mysql.CheckNameAvailabilityClient'' ''Execute'')), \<sigma>)"
  using assms by (simp add: Execute_def validateExecute_def)

theorem execute_validates_name_first_witness:
  "nar_Name \<lparr> nar_Name = None, nar_Type = Some ''Microsoft.DBforMySQL'' \<rparr> = None
   \<and> Execute exampleAutorest exampleMysqlClient
        \<lparr> nar_Name = None, nar_Type = Some ''Microsoft.DBforMySQL'' \<rparr> idle =
      ((emptyNameAvailability,
        Some (ValidationError (ConstraintFailed ''nameAvailabilityRequest.Name'' ''Null'')
                ''mysql.CheckNameAvailabilityClient'' ''Execute'')), idle)
   \<and> sent idle = []"
  using execute_validates_name_first [of "\<lparr> nar_Name = None, nar_Type = Some ''Microsoft.DBforMySQL'' \<rparr>"
      exampleAutorest exampleMysqlClient idle]
  by (simp add: idle_def)

end
